theory Spec2Isabelle
  imports Complex_Main
begin

section \<open>Python values: errors, dictionaries and \<open>collections.Counter\<close>\<close>

text \<open>
  Every exception the modelled code can raise is a value of \<open>error\<close>; a fallible
  computation returns \<open>error + 'a\<close> with \<open>Inl\<close> for the raise.
\<close>

datatype error =
    IndexError
  | KeyError
  | ZeroDivisionError
  | RuntimeError
  | FileNotFoundError
  | AttributeError
  | NameError
  | ValueError
  | TypeError
  | UnpicklingError
  | ConfigError
  | ShapeMismatchError

text \<open>
  A metric dictionary (the value of \<open>scores_batch\<close>) and a \<open>Counter\<close> are maps from
  metric name to number. \<open>Counter.update(mapping)\<close> adds the mapping's values to the
  stored ones, a missing key counting as 0.
\<close>

type_synonym scores = "string \<rightharpoonup> real"

definition counter_get :: "scores \<Rightarrow> string \<Rightarrow> real" where
  "counter_get c k = (case c k of None \<Rightarrow> 0 | Some v \<Rightarrow> v)"

definition counter_update :: "scores \<Rightarrow> scores \<Rightarrow> scores" where
  "counter_update c m =
     (\<lambda>k. case m k of None \<Rightarrow> c k | Some v \<Rightarrow> Some (v + counter_get c k))"

text \<open>
  \<^verbatim>\<open>for key in eval_scores: eval_scores[key] /= len(test_loader)\<close>
  (\<^verbatim>\<open>inference_ddim.py\<close> lines 150-151, \<^verbatim>\<open>main.py\<close> lines 243-244). The body runs
  once per stored key, so an empty counter is returned as it is, whatever the divisor.
\<close>

definition average_scores :: "scores \<Rightarrow> nat \<Rightarrow> error + scores" where
  "average_scores c n =
     (if c = Map.empty then Inr c
      else if n = 0 then Inl ZeroDivisionError
      else Inr (\<lambda>k. map_option (\<lambda>v. v / real n) (c k)))"

section \<open>Inference (\<^verbatim>\<open>inference_ddim.py\<close>)\<close>

record InferenceArgs =
  num_inference_steps :: int
  start_at_timestep :: int
  reconstruction_weight :: real
  mvtec_item :: string
  mvtec_item_states :: "string list"
  checkpoint_dir :: string
  checkpoint_name :: string
  log_dir :: string
  train_steps :: int
  beta_schedule :: string
  eta :: real
  device :: string
  dataset_path :: string
  shuffle :: bool
  img_dir :: string
  plt_imgs :: bool
  patch_imgs :: bool
  run_id :: string
  batch_size :: int

type_synonym image = "real list list"

text \<open>\<open>int(x)\<close> of a Python float: truncation towards zero.\<close>

definition py_int :: "real \<Rightarrow> int" where
  "py_int x = (if 0 \<le> x then \<lfloor>x\<rfloor> else \<lceil>x\<rceil>)"

record GaussianBlur =
  kernel_size :: int
  sigma :: real

text \<open>Line 129: \<^verbatim>\<open>diffmap_blur = transforms.GaussianBlur(2 * int(4 * 4 + 0.5) +1, 4)\<close>.\<close>

definition diffmap_blur :: GaussianBlur where
  "diffmap_blur = \<lparr>kernel_size = 2 * py_int (4 * 4 + 1 / 2) + 1, sigma = 4\<rparr>"

text \<open>
  Lines 142-143, with the loop variable as part of the state: every iteration binds
  \<open>i\<close> to the next element of the range before the body runs, and the binding
  outlives the loop. \<open>image_features[i]\<close> raises IndexError out of range.
\<close>

fun resize_features ::
  "('t \<Rightarrow> nat \<times> nat \<Rightarrow> error + 't) \<Rightarrow> nat list \<Rightarrow> nat \<times> 't list \<Rightarrow> error + nat \<times> 't list"
where
  "resize_features interpolate [] (i, image_features) = Inr (i, image_features)"
| "resize_features interpolate (j # js) (i, image_features) =
     (if j < length image_features then
        (case interpolate (image_features ! j) (32, 32) of
           Inl e \<Rightarrow> Inl e
         | Inr f \<Rightarrow> resize_features interpolate js (j, image_features[j := f]))
      else Inl IndexError)"

text \<open>
  Lines 140-145 of \<open>main\<close>: the state of the local variables \<open>i\<close> and \<open>fea_cat\<close> when
  \<open>run_inference_step\<close> is called. The feature extractor, \<open>F.interpolate\<close> and
  \<open>torch.cat\<close> are library code and are parameters; \<open>i\<close> comes in as the position
  given by \<open>enumerate(test_loader)\<close>.
\<close>

definition prepare_batch ::
  "('i \<Rightarrow> 't list) \<Rightarrow> ('t \<Rightarrow> nat \<times> nat \<Rightarrow> error + 't) \<Rightarrow> ('t list \<Rightarrow> error + 't)
     \<Rightarrow> nat \<Rightarrow> 'i \<Rightarrow> error + nat \<times> 't"
where
  "prepare_batch extract_endpoints interpolate cat i imgs =
     (let endpoints = extract_endpoints imgs;
          image_features = take (length endpoints - 2) endpoints
      in case resize_features interpolate [0..<4] (i, image_features) of
           Inl e \<Rightarrow> Inl e
         | Inr (i', image_features') \<Rightarrow>
             (case cat image_features' of
                Inl e \<Rightarrow> Inl e
              | Inr fea_cat \<Rightarrow> Inr (i', fea_cat)))"

text \<open>
  \<open>run_inference_step\<close> (lines 160-170). \<open>generate_samples\<close>,
  \<open>diff_map_to_anomaly_map\<close> and \<open>scores_batch\<close> live in modules that are not part of
  the sources read here; they are the first three parameters. The random number
  generator that \<open>generate_samples\<close> draws its noise from is threaded as \<open>rng\<close>. The
  function mutates \<open>eval_scores\<close>; the model returns the updated counter. The loop of
  lines 171-173 only creates \<open>img_dir\<close> on disk and is left out.
\<close>

definition run_inference_step ::
  "('rng \<Rightarrow> 'net \<Rightarrow> 'sched \<Rightarrow> 't \<Rightarrow> real \<Rightarrow> int \<Rightarrow> int \<Rightarrow> bool \<Rightarrow> 'k
       \<Rightarrow> error + ('t \<times> 't \<times> image list \<times> 'h) \<times> 'rng)
     \<Rightarrow> (image list \<Rightarrow> real \<Rightarrow> GaussianBlur \<Rightarrow> error + image list)
     \<Rightarrow> (image list \<Rightarrow> image list \<Rightarrow> error + scores)
     \<Rightarrow> 'rng \<Rightarrow> GaussianBlur \<Rightarrow> scores \<Rightarrow> image list \<Rightarrow> nat \<Rightarrow> 't \<Rightarrow> 'net \<Rightarrow> 'k \<Rightarrow> 'sched
     \<Rightarrow> string list \<Rightarrow> real \<Rightarrow> int \<Rightarrow> int \<Rightarrow> bool \<Rightarrow> bool \<Rightarrow> string
     \<Rightarrow> error + scores \<times> 'rng"
where
  "run_inference_step gen_samples to_anomaly_map score_batch rng blur eval_scores gts btc_idx imgs
       model noise_kind noise_scheduler_inference states eta_arg num_steps start_at patch plt dir =
     (case gen_samples rng model noise_scheduler_inference imgs eta_arg num_steps start_at patch
             noise_kind of
        Inl e \<Rightarrow> Inl e
      | Inr ((originals, reconstructions, diffmaps, history), rng') \<Rightarrow>
          (case to_anomaly_map diffmaps (3 / 10) blur of
             Inl e \<Rightarrow> Inl e
           | Inr anomaly_maps \<Rightarrow>
               (case score_batch gts anomaly_maps of
                  Inl e \<Rightarrow> Inl e
                | Inr m \<Rightarrow> Inr (counter_update eval_scores m, rng'))))"

text \<open>
  The body of \<^verbatim>\<open>for i, (imgs, states, gts) in enumerate(test_loader)\<close> (lines 139-148),
  threading the counter and the generator through the batches; an exception ends the
  loop. The function called in lines 146-148 is the first parameter, \<open>step\<close>, so that
  the sixteen arguments of the call can be told from what the callee does with them;
  \<open>writer\<close> is left out, as in \<open>run_inference_step\<close>.
\<close>

fun inference_loop_calling ::
  "('rng \<Rightarrow> GaussianBlur \<Rightarrow> scores \<Rightarrow> image list \<Rightarrow> nat \<Rightarrow> 't \<Rightarrow> 'net \<Rightarrow> 'k \<Rightarrow> 'sched
       \<Rightarrow> string list \<Rightarrow> real \<Rightarrow> int \<Rightarrow> int \<Rightarrow> bool \<Rightarrow> bool \<Rightarrow> string \<Rightarrow> error + scores \<times> 'rng)
     \<Rightarrow> ('i \<Rightarrow> 't list) \<Rightarrow> ('t \<Rightarrow> nat \<times> nat \<Rightarrow> error + 't) \<Rightarrow> ('t list \<Rightarrow> error + 't)
     \<Rightarrow> 'net \<Rightarrow> 'k \<Rightarrow> 'sched \<Rightarrow> InferenceArgs
     \<Rightarrow> (nat \<times> 'i \<times> string list \<times> image list) list \<Rightarrow> scores \<times> 'rng \<Rightarrow> error + scores \<times> 'rng"
where
  "inference_loop_calling step extract_endpoints interpolate cat model noise_kind sched args []
       (eval_scores, rng) = Inr (eval_scores, rng)"
| "inference_loop_calling step extract_endpoints interpolate cat model noise_kind sched args
       ((i, imgs, states, gts) # rest) (eval_scores, rng) =
     (case prepare_batch extract_endpoints interpolate cat i imgs of
        Inl e \<Rightarrow> Inl e
      | Inr (i', fea_cat) \<Rightarrow>
          (case step rng diffmap_blur eval_scores gts i' fea_cat model noise_kind sched states
                  (InferenceArgs.eta args) (num_inference_steps args) (start_at_timestep args)
                  (patch_imgs args) (plt_imgs args) (InferenceArgs.img_dir args) of
             Inl e \<Rightarrow> Inl e
           | Inr st \<Rightarrow>
               inference_loop_calling step extract_endpoints interpolate cat model noise_kind
                 sched args rest st))"

text \<open>The loop of \<open>main\<close>: the function called is \<open>run_inference_step\<close>.\<close>

definition inference_loop ::
  "('i \<Rightarrow> 't list) \<Rightarrow> ('t \<Rightarrow> nat \<times> nat \<Rightarrow> error + 't) \<Rightarrow> ('t list \<Rightarrow> error + 't)
     \<Rightarrow> ('rng \<Rightarrow> 'net \<Rightarrow> 'sched \<Rightarrow> 't \<Rightarrow> real \<Rightarrow> int \<Rightarrow> int \<Rightarrow> bool \<Rightarrow> 'k
          \<Rightarrow> error + ('t \<times> 't \<times> image list \<times> 'h) \<times> 'rng)
     \<Rightarrow> (image list \<Rightarrow> real \<Rightarrow> GaussianBlur \<Rightarrow> error + image list)
     \<Rightarrow> (image list \<Rightarrow> image list \<Rightarrow> error + scores)
     \<Rightarrow> 'net \<Rightarrow> 'k \<Rightarrow> 'sched \<Rightarrow> InferenceArgs
     \<Rightarrow> (nat \<times> 'i \<times> string list \<times> image list) list \<Rightarrow> scores \<times> 'rng \<Rightarrow> error + scores \<times> 'rng"
where
  "inference_loop extract_endpoints interpolate cat gen_samples to_anomaly_map score_batch
       model noise_kind sched args batches st =
     inference_loop_calling (run_inference_step gen_samples to_anomaly_map score_batch)
       extract_endpoints interpolate cat model noise_kind sched args batches st"

section \<open>Persisted configuration: JSON values and files\<close>

datatype json =
    JNull
  | JBool bool
  | JInt int
  | JFloat real
  | JStr string
  | JArr "json list"
  | JObj "(string \<times> json) list"

text \<open>
  A file holds the JSON value that was dumped into it, or a checkpoint written by
  \<open>torch.save\<close>. \<open>json.loads(open(path).read())\<close> raises FileNotFoundError for a
  missing path and a decode error (a ValueError) for a file that is not JSON.
\<close>

datatype stored = JsonFile json | StateDict

type_synonym files = "string \<rightharpoonup> stored"

text \<open>The disk: the files, and the paths written so far, oldest first.\<close>

type_synonym disk = "files \<times> string list"

definition write_file :: "string \<Rightarrow> stored \<Rightarrow> disk \<Rightarrow> disk" where
  "write_file path v d = ((fst d)(path \<mapsto> v), snd d @ [path])"

definition read_json :: "files \<Rightarrow> string \<Rightarrow> error + json" where
  "read_json fs path =
     (case fs path of
        None \<Rightarrow> Inl FileNotFoundError
      | Some (JsonFile v) \<Rightarrow> Inr v
      | Some StateDict \<Rightarrow> Inl ValueError)"

text \<open>
  \<^verbatim>\<open>torch.load(path)\<close> (line 123) opens the file and unpickles it: FileNotFoundError for
  a missing path, UnpicklingError for a file that holds JSON text. The weights are not
  modelled, so \<open>load_state_dict\<close> takes every checkpoint.
\<close>

definition torch_load :: "files \<Rightarrow> string \<Rightarrow> error + unit" where
  "torch_load fs path =
     (case fs path of
        None \<Rightarrow> Inl FileNotFoundError
      | Some (JsonFile v) \<Rightarrow> Inl UnpicklingError
      | Some StateDict \<Rightarrow> Inr ())"

text \<open>
  \<open>d[k]\<close> and \<open>d.get(k, default)\<close> on the value \<open>json.loads\<close> returned. A value that
  is not a dictionary raises TypeError for \<open>d[k]\<close> with a string \<open>k\<close> (a list or a
  string takes integer indices only, the other values no index at all) and
  AttributeError for \<open>d.get\<close>.
\<close>

definition dict_index :: "json \<Rightarrow> string \<Rightarrow> error + json" where
  "dict_index d k =
     (case d of
        JObj kvs \<Rightarrow> (case map_of kvs k of None \<Rightarrow> Inl KeyError | Some v \<Rightarrow> Inr v)
      | _ \<Rightarrow> Inl TypeError)"

definition dict_get :: "json \<Rightarrow> string \<Rightarrow> json \<Rightarrow> error + json" where
  "dict_get d k dflt =
     (case d of
        JObj kvs \<Rightarrow> (case map_of kvs k of None \<Rightarrow> Inr dflt | Some v \<Rightarrow> Inr v)
      | _ \<Rightarrow> Inl AttributeError)"

text \<open>
  \<open>save_args(obj, directory, name)\<close> is a function of \<^verbatim>\<open>utils/files.py\<close>, which is not
  among the sources. Both \<open>main\<close> functions take it as their first parameter
  \<open>save_args\<close>: it receives the dictionary to dump, the directory, the name and the
  disk, and returns the disk it leaves behind, or raises.
\<close>

text \<open>The dictionary of an \<open>InferenceArgs\<close> object, as \<open>save_args\<close> dumps it.\<close>

definition inference_args_json :: "InferenceArgs \<Rightarrow> json" where
  "inference_args_json a = JObj
     [(''num_inference_steps'', JInt (num_inference_steps a)),
      (''start_at_timestep'', JInt (start_at_timestep a)),
      (''reconstruction_weight'', JFloat (reconstruction_weight a)),
      (''mvtec_item'', JStr (mvtec_item a)),
      (''mvtec_item_states'', JArr (map JStr (mvtec_item_states a))),
      (''checkpoint_dir'', JStr (checkpoint_dir a)),
      (''checkpoint_name'', JStr (checkpoint_name a)),
      (''log_dir'', JStr (log_dir a)),
      (''train_steps'', JInt (train_steps a)),
      (''beta_schedule'', JStr (beta_schedule a)),
      (''eta'', JFloat (InferenceArgs.eta a)),
      (''device'', JStr (device a)),
      (''dataset_path'', JStr (dataset_path a)),
      (''shuffle'', JBool (shuffle a)),
      (''img_dir'', JStr (InferenceArgs.img_dir a)),
      (''plt_imgs'', JBool (plt_imgs a)),
      (''patch_imgs'', JBool (patch_imgs a)),
      (''run_id'', JStr (run_id a)),
      (''batch_size'', JInt (batch_size a))]"

text \<open>Lines 94-98 of \<open>main\<close>: both configuration files are read, then the arguments saved.\<close>

definition load_configs ::
  "(json \<Rightarrow> string \<Rightarrow> string \<Rightarrow> disk \<Rightarrow> error + disk) \<Rightarrow> InferenceArgs \<Rightarrow> disk
     \<Rightarrow> error + json \<times> json \<times> disk"
where
  "load_configs save_args args fs =
     (case read_json (fst fs) (checkpoint_dir args @ ''/model_config.json'') of
        Inl e \<Rightarrow> Inl e
      | Inr model_config \<Rightarrow>
          (case read_json (fst fs) (checkpoint_dir args @ ''/train_arg_config.json'') of
             Inl e \<Rightarrow> Inl e
           | Inr train_arg_config \<Rightarrow>
               (case save_args (inference_args_json args) (InferenceArgs.img_dir args)
                       ''inference_args'' fs of
                  Inl e \<Rightarrow> Inl e
                | Inr fs' \<Rightarrow> Inr (model_config, train_arg_config, fs'))))"

text \<open>
  The places where a score counter is read out: \<open>writer.add_scalars\<close> (main tag,
  dictionary, global step), \<open>writer.add_hparams\<close>, \<open>print\<close> and the progress bar's
  postfix string.
\<close>

datatype report =
    AddScalars string scores nat
  | AddHparams scores
  | Print scores
  | SetPostfix scores

text \<open>
  \<open>main\<close> of \<^verbatim>\<open>inference_ddim.py\<close>. The \<open>UNet2DModel\<close> constructor, the constructor of the
  scheduler and the data loader's batches are parameters; \<open>model_config["sample_size"]\<close>
  is looked up for the resize transform unless \<open>patch_imgs\<close> is set (line 102) and again
  for the hyper-parameter report (line 155); \<open>torch.load\<close> reads the checkpoint from the
  disk as \<open>save_args\<close> left it. \<open>writer\<close> is a \<open>SummaryWriter\<close>; what it and \<open>print\<close>
  receive is returned as the list of reports.
\<close>

definition inference_main ::
  "(json \<Rightarrow> string \<Rightarrow> string \<Rightarrow> disk \<Rightarrow> error + disk)
     \<Rightarrow> (json \<Rightarrow> error + 'net) \<Rightarrow> (int \<Rightarrow> int \<Rightarrow> string \<Rightarrow> string \<Rightarrow> real \<Rightarrow> error + 'sched)
     \<Rightarrow> ('i \<Rightarrow> 't list) \<Rightarrow> ('t \<Rightarrow> nat \<times> nat \<Rightarrow> error + 't) \<Rightarrow> ('t list \<Rightarrow> error + 't)
     \<Rightarrow> ('rng \<Rightarrow> 'net \<Rightarrow> 'sched \<Rightarrow> 't \<Rightarrow> real \<Rightarrow> int \<Rightarrow> int \<Rightarrow> bool \<Rightarrow> json
          \<Rightarrow> error + ('t \<times> 't \<times> image list \<times> 'h) \<times> 'rng)
     \<Rightarrow> (image list \<Rightarrow> real \<Rightarrow> GaussianBlur \<Rightarrow> error + image list)
     \<Rightarrow> (image list \<Rightarrow> image list \<Rightarrow> error + scores)
     \<Rightarrow> InferenceArgs \<Rightarrow> ('i \<times> string list \<times> image list) list \<Rightarrow> disk \<Rightarrow> 'rng
     \<Rightarrow> error + scores \<times> report list \<times> disk"
where
  "inference_main save_args unet ddim_scheduler extract_endpoints interpolate cat gen_samples
       to_anomaly_map score_batch args test_loader fs rng =
     (case load_configs save_args args fs of
        Inl e \<Rightarrow> Inl e
      | Inr (model_config, train_arg_config, fs') \<Rightarrow>
     (case (if patch_imgs args then Inr JNull else dict_index model_config ''sample_size'') of
        Inl e \<Rightarrow> Inl e
      | Inr _ \<Rightarrow>
     (case unet model_config of
        Inl e \<Rightarrow> Inl e
      | Inr model \<Rightarrow>
     (case torch_load (fst fs') (checkpoint_dir args @ ''/'' @ checkpoint_name args) of
        Inl e \<Rightarrow> Inl e
      | Inr _ \<Rightarrow>
     (case ddim_scheduler (train_steps args) (start_at_timestep args) (beta_schedule args)
             ''leading'' (reconstruction_weight args) of
        Inl e \<Rightarrow> Inl e
      | Inr noise_scheduler_inference \<Rightarrow>
     (case dict_get train_arg_config ''noise_kind'' (JStr ''gaussian'') of
        Inl e \<Rightarrow> Inl e
      | Inr noise_kind \<Rightarrow>
     (case inference_loop extract_endpoints interpolate cat gen_samples to_anomaly_map
             score_batch model noise_kind noise_scheduler_inference args
             (enumerate 0 test_loader) (Map.empty, rng) of
        Inl e \<Rightarrow> Inl e
      | Inr (eval_scores, rng') \<Rightarrow>
     (case average_scores eval_scores (length test_loader) of
        Inl e \<Rightarrow> Inl e
      | Inr final \<Rightarrow>
     (case dict_index model_config ''sample_size'' of
        Inl e \<Rightarrow> Inl e
      | Inr _ \<Rightarrow> Inr (final, [AddHparams final, Print final], fs'))))))))))"

section \<open>Training (\<^verbatim>\<open>main.py\<close>)\<close>

record TrainArgs =
  checkpoint_dir :: string
  log_dir :: string
  run_name :: string
  mvtec_item :: string
  resolution :: int
  epochs :: int
  save_n_epochs :: int
  dataset_path :: string
  train_steps :: int
  beta_schedule :: string
  device :: string
  reconstruction_weight :: real
  eta :: real
  batch_size :: int
  noise_kind :: string
  plt_imgs :: bool
  img_dir :: "string option"
  calc_val_loss :: bool
  crop :: bool

text \<open>The dictionary of a \<open>TrainArgs\<close> object, as \<open>save_args\<close> dumps it.\<close>

definition train_args_json :: "TrainArgs \<Rightarrow> json" where
  "train_args_json a = JObj
     [(''checkpoint_dir'', JStr (TrainArgs.checkpoint_dir a)),
      (''log_dir'', JStr (TrainArgs.log_dir a)),
      (''run_name'', JStr (run_name a)),
      (''mvtec_item'', JStr (TrainArgs.mvtec_item a)),
      (''resolution'', JInt (resolution a)),
      (''epochs'', JInt (epochs a)),
      (''save_n_epochs'', JInt (save_n_epochs a)),
      (''dataset_path'', JStr (TrainArgs.dataset_path a)),
      (''train_steps'', JInt (TrainArgs.train_steps a)),
      (''beta_schedule'', JStr (TrainArgs.beta_schedule a)),
      (''device'', JStr (TrainArgs.device a)),
      (''reconstruction_weight'', JFloat (TrainArgs.reconstruction_weight a)),
      (''eta'', JFloat (TrainArgs.eta a)),
      (''batch_size'', JInt (TrainArgs.batch_size a)),
      (''noise_kind'', JStr (noise_kind a)),
      (''plt_imgs'', JBool (TrainArgs.plt_imgs a)),
      (''img_dir'', (case TrainArgs.img_dir a of None \<Rightarrow> JNull | Some d \<Rightarrow> JStr d)),
      (''calc_val_loss'', JBool (calc_val_loss a)),
      (''crop'', JBool (crop a))]"

text \<open>Lines 134-138: the dictionary \<open>channel_multiplier\<close>, indexed by the resolution.\<close>

definition channel_multiplier :: "int \<Rightarrow> error + int list" where
  "channel_multiplier r =
     (if r = 128 then Inr [128, 128, 256, 384, 512]
      else if r = 256 then Inr [128, 128, 256, 256, 512, 512]
      else if r = 224 then Inr [256, 512, 768, 1024]
      else Inl KeyError)"

text \<open>
  Lines 139-152. Every tuple of \<open>channel_multiplier\<close> has at least four entries, so
  \<open>down_blocks[-2]\<close> and \<open>up_blocks[1]\<close> are in range. A tuple is dumped as a JSON array.
\<close>

definition model_args :: "TrainArgs \<Rightarrow> error + json" where
  "model_args args =
     (case channel_multiplier (resolution args) of
        Inl e \<Rightarrow> Inl e
      | Inr chans \<Rightarrow>
          (let n = length chans;
               down_blocks = (replicate n ''DownBlock2D'')[n - 2 := ''AttnDownBlock2D''];
               up_blocks = (replicate n ''UpBlock2D'')[1 := ''AttnUpBlock2D'']
           in Inr (JObj
                [(''sample_size'', JInt (resolution args)),
                 (''in_channels'', JInt 272),
                 (''out_channels'', JInt 272),
                 (''layers_per_block'', JInt 2),
                 (''block_out_channels'', JArr (map JInt chans)),
                 (''down_block_types'', JArr (map JStr down_blocks)),
                 (''up_block_types'', JArr (map JStr up_blocks))])))"

text \<open>
  Lines 212-222: the training batches of one epoch. The features are built by the same
  statements as in inference (the enumeration variable is \<open>btc_num\<close> here, so the value
  \<open>i\<close> has before the inner loop does not matter). \<open>train_step\<close> is a parameter; it
  returns the loss and the updated network.
\<close>

fun train_loop ::
  "('i \<Rightarrow> 't list) \<Rightarrow> ('t \<Rightarrow> nat \<times> nat \<Rightarrow> error + 't) \<Rightarrow> ('t list \<Rightarrow> error + 't)
     \<Rightarrow> ('net \<Rightarrow> 't \<Rightarrow> 'ds \<Rightarrow> int \<Rightarrow> string \<Rightarrow> error + real \<times> 'net)
     \<Rightarrow> 'ds \<Rightarrow> TrainArgs \<Rightarrow> ('i \<times> 'l) list \<Rightarrow> real \<times> 'net \<Rightarrow> error + real \<times> 'net"
where
  "train_loop extract_endpoints interpolate cat train_step noise_scheduler args []
       (running_loss_train, model) = Inr (running_loss_train, model)"
| "train_loop extract_endpoints interpolate cat train_step noise_scheduler args ((batch, l) # rest)
       (running_loss_train, model) =
     (case prepare_batch extract_endpoints interpolate cat 0 batch of
        Inl e \<Rightarrow> Inl e
      | Inr (i, fea_cat) \<Rightarrow>
          (case train_step model fea_cat noise_scheduler (TrainArgs.train_steps args)
                  (noise_kind args) of
             Inl e \<Rightarrow> Inl e
           | Inr (loss, model') \<Rightarrow>
               train_loop extract_endpoints interpolate cat train_step noise_scheduler args rest
                 (running_loss_train + loss, model')))"

text \<open>
  Lines 227-234: the validation batches of one epoch. The state is the running test
  loss, the counter \<open>scores\<close> and what the summary writer has received. No statement of
  the loop assigns to \<open>scores\<close>; the call of \<open>run_inference_step\<close> after the loop is
  commented out in the source.
\<close>

fun validation_loop ::
  "('net \<Rightarrow> 'i \<Rightarrow> 'ds \<Rightarrow> int \<Rightarrow> error + real) \<Rightarrow> 'net \<Rightarrow> 'ds \<Rightarrow> TrainArgs \<Rightarrow> nat
     \<Rightarrow> ('i \<times> 'l \<times> image list) list \<Rightarrow> real \<times> scores \<times> report list
     \<Rightarrow> error + real \<times> scores \<times> report list"
where
  "validation_loop validate_step model noise_scheduler args epoch [] st = Inr st"
| "validation_loop validate_step model noise_scheduler args epoch ((batch, labels, gts) # rest)
       (running_loss_test, scores, written) =
     (case (if calc_val_loss args
            then validate_step model batch noise_scheduler (TrainArgs.train_steps args)
            else Inr 0) of
        Inl e \<Rightarrow> Inl e
      | Inr loss \<Rightarrow>
          validation_loop validate_step model noise_scheduler args epoch rest
            (running_loss_test + loss, scores, written @ [AddScalars ''scores'' scores epoch]))"

text \<open>
  Lines 224-247: \<open>scores = Counter()\<close>, the validation batches, the division of every
  stored score by \<open>len(test_loader)\<close>, and the postfix string, which divides the running
  losses (the integer 0 when a loader is empty) by the loaders' lengths.
\<close>

definition validation_phase ::
  "('net \<Rightarrow> 'i \<Rightarrow> 'ds \<Rightarrow> int \<Rightarrow> error + real) \<Rightarrow> 'net \<Rightarrow> 'ds \<Rightarrow> TrainArgs \<Rightarrow> nat \<Rightarrow> nat
     \<Rightarrow> ('i \<times> 'l \<times> image list) list \<Rightarrow> report list \<Rightarrow> error + real \<times> scores \<times> report list"
where
  "validation_phase validate_step model noise_scheduler args epoch n_train test_loader written =
     (case validation_loop validate_step model noise_scheduler args epoch test_loader
             (0, Map.empty, written) of
        Inl e \<Rightarrow> Inl e
      | Inr (running_loss_test, scores, written') \<Rightarrow>
          (case average_scores scores (length test_loader) of
             Inl e \<Rightarrow> Inl e
           | Inr scores' \<Rightarrow>
               if n_train = 0 \<or> length test_loader = 0 then Inl ZeroDivisionError
               else Inr (running_loss_test, scores', written' @ [SetPostfix scores'])))"

text \<open>
  One pass of \<^verbatim>\<open>for epoch in range(args.epochs)\<close> (lines 203-251) on the network, the
  disk and the reports. \<open>epoch % args.save_n_epochs\<close> raises for a zero divisor;
  \<open>str\<close> renders the epoch number in the checkpoint's name.
\<close>

definition run_epoch ::
  "('i \<Rightarrow> 't list) \<Rightarrow> ('t \<Rightarrow> nat \<times> nat \<Rightarrow> error + 't) \<Rightarrow> ('t list \<Rightarrow> error + 't)
     \<Rightarrow> ('net \<Rightarrow> 't \<Rightarrow> 'ds \<Rightarrow> int \<Rightarrow> string \<Rightarrow> error + real \<times> 'net)
     \<Rightarrow> ('net \<Rightarrow> 'i \<Rightarrow> 'ds \<Rightarrow> int \<Rightarrow> error + real) \<Rightarrow> (int \<Rightarrow> string)
     \<Rightarrow> 'ds \<Rightarrow> TrainArgs \<Rightarrow> string \<Rightarrow> ('i \<times> 'l) list \<Rightarrow> ('i \<times> 'm \<times> image list) list \<Rightarrow> nat
     \<Rightarrow> 'net \<times> disk \<times> report list \<Rightarrow> error + real \<times> 'net \<times> disk \<times> report list"
where
  "run_epoch extract_endpoints interpolate cat train_step validate_step str noise_scheduler args
       run_dir train_loader test_loader epoch st =
     (case st of (model, fs, written) \<Rightarrow>
     (case train_loop extract_endpoints interpolate cat train_step noise_scheduler args
             train_loader (0, model) of
        Inl e \<Rightarrow> Inl e
      | Inr (running_loss_train, model') \<Rightarrow>
     (case validation_phase validate_step model' noise_scheduler args epoch
             (length train_loader) test_loader written of
        Inl e \<Rightarrow> Inl e
      | Inr (running_loss_test, scores, written') \<Rightarrow>
          if save_n_epochs args = 0 then Inl ZeroDivisionError
          else Inr (running_loss_test, model',
                    (if int epoch mod save_n_epochs args = 0 \<and> 0 < epoch
                     then write_file (run_dir @ ''/epoch_'' @ str (int epoch) @ ''.pt'') StateDict fs
                     else fs),
                    written'))))"

fun train_epochs ::
  "('i \<Rightarrow> 't list) \<Rightarrow> ('t \<Rightarrow> nat \<times> nat \<Rightarrow> error + 't) \<Rightarrow> ('t list \<Rightarrow> error + 't)
     \<Rightarrow> ('net \<Rightarrow> 't \<Rightarrow> 'ds \<Rightarrow> int \<Rightarrow> string \<Rightarrow> error + real \<times> 'net)
     \<Rightarrow> ('net \<Rightarrow> 'i \<Rightarrow> 'ds \<Rightarrow> int \<Rightarrow> error + real) \<Rightarrow> (int \<Rightarrow> string)
     \<Rightarrow> 'ds \<Rightarrow> TrainArgs \<Rightarrow> string \<Rightarrow> ('i \<times> 'l) list \<Rightarrow> ('i \<times> 'm \<times> image list) list \<Rightarrow> nat list
     \<Rightarrow> real option \<times> 'net \<times> disk \<times> report list
     \<Rightarrow> error + real option \<times> 'net \<times> disk \<times> report list"
where
  "train_epochs extract_endpoints interpolate cat train_step validate_step str noise_scheduler
       args run_dir train_loader test_loader [] acc = Inr acc"
| "train_epochs extract_endpoints interpolate cat train_step validate_step str noise_scheduler
       args run_dir train_loader test_loader (epoch # rest) acc =
     (case run_epoch extract_endpoints interpolate cat train_step validate_step str
             noise_scheduler args run_dir train_loader test_loader epoch (snd acc) of
        Inl e \<Rightarrow> Inl e
      | Inr (running_loss_test, st) \<Rightarrow>
          train_epochs extract_endpoints interpolate cat train_step validate_step str
            noise_scheduler args run_dir train_loader test_loader rest
            (Some running_loss_test, st))"

text \<open>The directory a training run writes to (\<open>main.py\<close> lines 199-200, 251, 265).\<close>

definition run_directory :: "TrainArgs \<Rightarrow> string \<Rightarrow> string" where
  "run_directory args timestamp =
     TrainArgs.checkpoint_dir args @ ''/'' @ run_name args @ ''_'' @ timestamp"

text \<open>
  Lines 134-200 of \<open>main\<close> of \<^verbatim>\<open>main.py\<close>: the model arguments, the three constructors
  (parameters) and the two calls of \<open>save_args\<close>, which come before the epoch loop.
  \<open>timestamp\<close> is \<^verbatim>\<open>str(time.time())[:11]\<close>.
\<close>

definition train_setup ::
  "(json \<Rightarrow> string \<Rightarrow> string \<Rightarrow> disk \<Rightarrow> error + disk)
     \<Rightarrow> (json \<Rightarrow> error + 'net) \<Rightarrow> (int \<Rightarrow> string \<Rightarrow> error + 'ds)
     \<Rightarrow> (int \<Rightarrow> int \<Rightarrow> string \<Rightarrow> string \<Rightarrow> real \<Rightarrow> error + 'sched)
     \<Rightarrow> TrainArgs \<Rightarrow> string \<Rightarrow> disk \<Rightarrow> error + 'net \<times> 'ds \<times> 'sched \<times> disk"
where
  "train_setup save_args unet ddpm_scheduler ddim_scheduler args timestamp fs =
     (case model_args args of
        Inl e \<Rightarrow> Inl e
      | Inr margs \<Rightarrow>
     (case unet margs of
        Inl e \<Rightarrow> Inl e
      | Inr model \<Rightarrow>
     (case ddpm_scheduler (TrainArgs.train_steps args) (TrainArgs.beta_schedule args) of
        Inl e \<Rightarrow> Inl e
      | Inr noise_scheduler \<Rightarrow>
     (case ddim_scheduler (TrainArgs.train_steps args) 150 (TrainArgs.beta_schedule args)
             ''leading'' (TrainArgs.reconstruction_weight args) of
        Inl e \<Rightarrow> Inl e
      | Inr inf_noise_scheduler \<Rightarrow>
     (case save_args (train_args_json args) (run_directory args timestamp) ''train_arg_config''
             fs of
        Inl e \<Rightarrow> Inl e
      | Inr fs1 \<Rightarrow>
     (case save_args margs (run_directory args timestamp) ''model_config'' fs1 of
        Inl e \<Rightarrow> Inl e
      | Inr fs2 \<Rightarrow> Inr (model, noise_scheduler, inf_noise_scheduler, fs2)))))))"

text \<open>
  \<open>main\<close> of \<^verbatim>\<open>main.py\<close>: the set-up, the epochs, the final report, which reads
  \<open>running_loss_test\<close> (unbound when no epoch ran), and the final checkpoint.
\<close>

definition train_main ::
  "(json \<Rightarrow> string \<Rightarrow> string \<Rightarrow> disk \<Rightarrow> error + disk)
     \<Rightarrow> (json \<Rightarrow> error + 'net) \<Rightarrow> (int \<Rightarrow> string \<Rightarrow> error + 'ds)
     \<Rightarrow> (int \<Rightarrow> int \<Rightarrow> string \<Rightarrow> string \<Rightarrow> real \<Rightarrow> error + 'sched)
     \<Rightarrow> ('i \<Rightarrow> 't list) \<Rightarrow> ('t \<Rightarrow> nat \<times> nat \<Rightarrow> error + 't) \<Rightarrow> ('t list \<Rightarrow> error + 't)
     \<Rightarrow> ('net \<Rightarrow> 't \<Rightarrow> 'ds \<Rightarrow> int \<Rightarrow> string \<Rightarrow> error + real \<times> 'net)
     \<Rightarrow> ('net \<Rightarrow> 'i \<Rightarrow> 'ds \<Rightarrow> int \<Rightarrow> error + real) \<Rightarrow> (int \<Rightarrow> string)
     \<Rightarrow> TrainArgs \<Rightarrow> string \<Rightarrow> ('i \<times> 'l) list \<Rightarrow> ('i \<times> 'm \<times> image list) list \<Rightarrow> disk
     \<Rightarrow> error + disk \<times> report list"
where
  "train_main save_args unet ddpm_scheduler ddim_scheduler extract_endpoints interpolate cat
       train_step validate_step str args timestamp train_loader test_loader fs =
     (case train_setup save_args unet ddpm_scheduler ddim_scheduler args timestamp fs of
        Inl e \<Rightarrow> Inl e
      | Inr (model, noise_scheduler, inf_noise_scheduler, fs2) \<Rightarrow>
          (case train_epochs extract_endpoints interpolate cat train_step validate_step str
                  noise_scheduler args (run_directory args timestamp) train_loader test_loader
                  [0..<nat (epochs args)] (None, model, fs2, []) of
             Inl e \<Rightarrow> Inl e
           | Inr (None, st) \<Rightarrow> Inl NameError
           | Inr (Some running_loss_test, model', fs3, written) \<Rightarrow>
               Inr (write_file (run_directory args timestamp @ ''/epoch_'' @ str (epochs args)
                                  @ ''.pt'') StateDict fs3,
                    written)))"

section \<open>Tensor shapes of the library operations\<close>

text \<open>
  A four-dimensional tensor seen through its shape (batch, channels, height, width).
  \<open>F.interpolate(x, size=(h, w), mode='bilinear')\<close> keeps batch and channels and sets
  the spatial size; it rejects an empty input. \<open>torch.cat(xs, dim=1)\<close> needs a
  non-empty list whose tensors agree in every dimension but the channels, which add up.
\<close>

type_synonym shape = "nat \<times> nat \<times> nat \<times> nat"

definition channels :: "shape \<Rightarrow> nat" where
  "channels s = fst (snd s)"

definition interpolate_shape :: "shape \<Rightarrow> nat \<times> nat \<Rightarrow> error + shape" where
  "interpolate_shape s sz =
     (case s of (n, c, h, w) \<Rightarrow>
        if n = 0 \<or> c = 0 \<or> h = 0 \<or> w = 0 \<or> fst sz = 0 \<or> snd sz = 0 then Inl RuntimeError
        else Inr (n, c, fst sz, snd sz))"

definition cat_shape :: "shape list \<Rightarrow> error + shape" where
  "cat_shape xs =
     (case xs of
        [] \<Rightarrow> Inl RuntimeError
      | (n, c, h, w) # rest \<Rightarrow>
          if list_all (\<lambda>s. fst s = n \<and> snd (snd s) = (h, w)) rest
          then Inr (n, sum_list (map channels xs), h, w)
          else Inl RuntimeError)"

text \<open>
  The channel counts of the six endpoints \<open>reduction_1\<close> ... \<open>reduction_6\<close> that
  \<open>extract_endpoints\<close> of the pretrained \<^verbatim>\<open>efficientnet-b4\<close> returns (a fact of the
  \<^verbatim>\<open>efficientnet_pytorch\<close> package, loaded in line 126 and in \<^verbatim>\<open>main.py\<close> line 156).
\<close>

definition efficientnet_b4_channels :: "nat list" where
  "efficientnet_b4_channels = [24, 32, 56, 160, 448, 1792]"

section \<open>The noise schedule\<close>

text \<open>
  Modelled from the spec: the NoiseSchedule of section 4.1 (the schedulers of
  \<^verbatim>\<open>schedulers/scheduling_ddim.py\<close> and \<^verbatim>\<open>schedulers/scheduling_ddpm.py\<close> are not among
  the sources). For every timestep it holds \<open>beta_t\<close>, \<open>alpha_t = 1 - beta_t\<close> and
  \<open>alpha_cumprod_t\<close>, the product of the \<open>alpha_i\<close> for \<open>i \<le> t\<close>. "The linear schedule
  linearly interpolates beta between two fixed small constants (e.g., 1e-4 to 2e-2)
  across T steps"; \<open>build\<close> "fails with ConfigError if T <= 0 or beta_schedule_kind
  unrecognized". The spec defines no other kind, so \<open>linear\<close> is the one supported here.
\<close>

record NoiseSchedule =
  betas :: "real list"
  alphas :: "real list"
  alphas_cumprod :: "real list"

definition linear_betas :: "real \<Rightarrow> real \<Rightarrow> nat \<Rightarrow> real list" where
  "linear_betas b0 b1 T =
     map (\<lambda>t. if T = 1 then b0 else b0 + real t * (b1 - b0) / real (T - 1)) [0..<T]"

fun cumprod :: "real \<Rightarrow> real list \<Rightarrow> real list" where
  "cumprod acc [] = []"
| "cumprod acc (x # xs) = (acc * x) # cumprod (acc * x) xs"

definition schedule_of_betas :: "real list \<Rightarrow> NoiseSchedule" where
  "schedule_of_betas bs =
     \<lparr>betas = bs, alphas = map (\<lambda>b. 1 - b) bs, alphas_cumprod = cumprod 1 (map (\<lambda>b. 1 - b) bs)\<rparr>"

definition beta_start :: real where
  "beta_start = 1 / 10000"

definition beta_end :: real where
  "beta_end = 2 / 100"

definition build :: "int \<Rightarrow> string \<Rightarrow> error + NoiseSchedule" where
  "build T beta_schedule_kind =
     (if T \<le> 0 then Inl ConfigError
      else if beta_schedule_kind = ''linear''
      then Inr (schedule_of_betas (linear_betas beta_start beta_end (nat T)))
      else Inl ConfigError)"

definition alpha_cumprod :: "NoiseSchedule \<Rightarrow> nat \<Rightarrow> real" where
  "alpha_cumprod s t = alphas_cumprod s ! t"

section \<open>The DDIM sampler\<close>

text \<open>
  Modelled from the spec: ForwardDiffuser (section 4.2) and DDIMSampler (section 4.3);
  \<open>DDIMScheduler\<close> and \<open>generate_samples\<close> (\<^verbatim>\<open>utils/visualize.py\<close>) are not among the
  sources. A sample is an element of a real vector space, so the samples of one run
  have one shape by their type and the ShapeMismatchError of section 4.2 cannot arise.
  The network is a function of (sample, timestep, conditioning features).
\<close>

definition noisify :: "NoiseSchedule \<Rightarrow> 'a \<Rightarrow> nat \<Rightarrow> 'a \<Rightarrow> 'a::real_vector" where
  "noisify s clean_sample t noise =
     sqrt (alpha_cumprod s t) *\<^sub>R clean_sample + sqrt (1 - alpha_cumprod s t) *\<^sub>R noise"

text \<open>Step 3b: the predicted clean-sample estimate.\<close>

definition predict_x0 :: "NoiseSchedule \<Rightarrow> nat \<Rightarrow> 'a \<Rightarrow> 'a \<Rightarrow> 'a::real_vector" where
  "predict_x0 s t_cur current_sample predicted_noise =
     (current_sample - sqrt (1 - alpha_cumprod s t_cur) *\<^sub>R predicted_noise)
       /\<^sub>R sqrt (alpha_cumprod s t_cur)"

text \<open>Step 3c: the blend with the original sample.\<close>

definition blend :: "real \<Rightarrow> 'a \<Rightarrow> 'a \<Rightarrow> 'a::real_vector" where
  "blend w original_sample x0_pred = w *\<^sub>R original_sample + (1 - w) *\<^sub>R x0_pred"

text \<open>
  Step 3d, "standard closed form: variance scales with eta and the ratio of
  (1-alpha_cumprod_prev)/(1-alpha_cumprod_cur) times (1 - alpha_cumprod_cur/alpha_cumprod_prev)",
  with the edge case "if eta > 0 but t_prev == 0, variance must be forced to zero". The
  variance is the square of the standard deviation, which is eta times the root of the
  product, so eta enters squared.
\<close>

definition ddim_variance :: "real \<Rightarrow> NoiseSchedule \<Rightarrow> nat \<Rightarrow> nat \<Rightarrow> real" where
  "ddim_variance eta_arg s t_cur t_prev =
     (if t_prev = 0 then 0
      else eta_arg\<^sup>2 * ((1 - alpha_cumprod s t_prev) / (1 - alpha_cumprod s t_cur))
             * (1 - alpha_cumprod s t_cur / alpha_cumprod s t_prev))"

text \<open>
  Steps 3b-3f for one pair (t_cur, t_prev), given the network's prediction and the
  fresh noise. The direction term is the predicted noise scaled by
  \<open>sqrt(1 - alpha_cumprod[t_prev] - variance)\<close>.
\<close>

definition ddim_step ::
  "NoiseSchedule \<Rightarrow> real \<Rightarrow> real \<Rightarrow> 'a \<Rightarrow> 'a \<Rightarrow> 'a \<Rightarrow> nat \<Rightarrow> nat \<Rightarrow> 'a \<Rightarrow> 'a::real_vector"
where
  "ddim_step s w eta_arg original_sample current_sample predicted_noise t_cur t_prev fresh_noise =
     (let x0_pred = blend w original_sample (predict_x0 s t_cur current_sample predicted_noise);
          variance = ddim_variance eta_arg s t_cur t_prev;
          direction = sqrt (1 - alpha_cumprod s t_prev - variance) *\<^sub>R predicted_noise
      in sqrt (alpha_cumprod s t_prev) *\<^sub>R x0_pred + direction
           + (if 0 < variance then sqrt variance *\<^sub>R fresh_noise else 0))"

text \<open>
  Step 1. "leading" spacing selects the steps 0, stride, 2*stride, ... with
  stride = T / num_inference_steps rounded down; the sampler keeps those up to
  \<open>start_at_timestep\<close>, in descending order. The step count is clamped to
  \<open>start_at_timestep + 1\<close>, and an empty or non-monotonic sequence is a ConfigError, as
  is a start outside the timesteps 0 ... T-1.
\<close>

definition leading_timesteps :: "nat \<Rightarrow> nat \<Rightarrow> nat list" where
  "leading_timesteps T n = map (\<lambda>k. k * (T div n)) [0..<n]"

definition sampling_timesteps :: "nat \<Rightarrow> int \<Rightarrow> int \<Rightarrow> error + nat list" where
  "sampling_timesteps T num_steps start =
     (if num_steps \<le> 0 \<or> start < 0 \<or> int T \<le> start then Inl ConfigError
      else (let n = nat (min num_steps (start + 1));
                ts = rev (filter (\<lambda>t. int t \<le> start) (leading_timesteps T n))
            in if ts = [] \<or> \<not> sorted_wrt (>) ts then Inl ConfigError else Inr ts))"

text \<open>
  Step 3, over the descending timesteps. The state is the current sample, the
  trajectory (step 3g), the queries made to the network so far, each a triple (sample,
  timestep, conditioning features), and the noise generator, from which fresh noise is
  drawn only when the variance is positive (step 3f).
\<close>

fun ddim_loop ::
  "('k \<Rightarrow> 'rng \<Rightarrow> 'a \<times> 'rng) \<Rightarrow> ('a \<Rightarrow> nat \<Rightarrow> 'a \<Rightarrow> 'a) \<Rightarrow> NoiseSchedule \<Rightarrow> real \<Rightarrow> real
     \<Rightarrow> 'a \<Rightarrow> 'a \<Rightarrow> 'k \<Rightarrow> nat list
     \<Rightarrow> ('a \<times> (nat \<times> 'a) list \<times> ('a \<times> nat \<times> 'a) list) \<times> 'rng
     \<Rightarrow> (('a::real_vector) \<times> (nat \<times> 'a) list \<times> ('a \<times> nat \<times> 'a) list) \<times> 'rng"
where
  "ddim_loop sample_noise model s w eta_arg original_sample conditioning_features kind
       (t_cur # t_prev # ts) st =
     (case st of ((current_sample, trajectory, queries), rng) \<Rightarrow>
        (let predicted_noise = model current_sample t_cur conditioning_features;
             (fresh_noise, rng') =
                (if 0 < ddim_variance eta_arg s t_cur t_prev then sample_noise kind rng
                 else (0, rng));
             next_sample = ddim_step s w eta_arg original_sample current_sample predicted_noise
                             t_cur t_prev fresh_noise
         in ddim_loop sample_noise model s w eta_arg original_sample conditioning_features
              kind (t_prev # ts)
              ((next_sample, trajectory @ [(t_prev, next_sample)],
                queries @ [(current_sample, t_cur, conditioning_features)]), rng')))"
| "ddim_loop sample_noise model s w eta_arg original_sample conditioning_features kind
       ts st = st"

text \<open>
  The scheduler object built in line 133 (and in \<^verbatim>\<open>main.py\<close> line 158) from the total
  step count, a start timestep, the beta schedule kind, the spacing and the
  reconstruction weight. Only "leading" spacing is specified. The start timestep given
  here is not used by the schedule; the sampler receives its own.
\<close>

record DDIMScheduler =
  schedule :: NoiseSchedule
  num_train_timesteps :: nat
  recon_weight :: real

definition ddim_scheduler :: "int \<Rightarrow> int \<Rightarrow> string \<Rightarrow> string \<Rightarrow> real \<Rightarrow> error + DDIMScheduler" where
  "ddim_scheduler T start kind timestep_spacing w =
     (if timestep_spacing \<noteq> ''leading'' then Inl ConfigError
      else case build T kind of
             Inl e \<Rightarrow> Inl e
           | Inr s \<Rightarrow> Inr \<lparr>schedule = s, num_train_timesteps = nat T, recon_weight = w\<rparr>)"

text \<open>
  Steps 1-4 for one batch. \<open>run_inference_step\<close> hands over a single tensor, the
  concatenated features, so it is both the original sample and the conditioning
  features. Step 2 noises it up to \<open>start_at_timestep\<close> with one draw of noise.
\<close>

definition sampler_run ::
  "('k \<Rightarrow> 'rng \<Rightarrow> 'a \<times> 'rng) \<Rightarrow> 'rng \<Rightarrow> ('a \<Rightarrow> nat \<Rightarrow> 'a \<Rightarrow> 'a) \<Rightarrow> DDIMScheduler \<Rightarrow> 'a \<Rightarrow> real
     \<Rightarrow> int \<Rightarrow> int \<Rightarrow> 'k
     \<Rightarrow> error + (('a::real_vector) \<times> (nat \<times> 'a) list \<times> ('a \<times> nat \<times> 'a) list) \<times> 'rng"
where
  "sampler_run sample_noise rng model sched imgs eta_arg num_steps start kind =
     (case sampling_timesteps (num_train_timesteps sched) num_steps start of
        Inl e \<Rightarrow> Inl e
      | Inr ts \<Rightarrow>
          (let (noise, rng1) = sample_noise kind rng;
               initial_sample = noisify (schedule sched) imgs (nat start) noise
           in Inr (ddim_loop sample_noise model (schedule sched) (recon_weight sched) eta_arg
                     imgs imgs kind ts ((initial_sample, [], []), rng1))))"

text \<open>
  Step 4: the value of \<open>generate_samples\<close>, (originals, reconstructions, diff maps,
  history). How the diff map is computed from the pair (absolute or squared difference)
  is left open by the spec and is the parameter \<open>diff_map\<close>.
\<close>

definition generate_samples ::
  "('k \<Rightarrow> 'rng \<Rightarrow> 'a \<times> 'rng) \<Rightarrow> ('a \<Rightarrow> 'a \<Rightarrow> image list) \<Rightarrow> 'rng \<Rightarrow> ('a \<Rightarrow> nat \<Rightarrow> 'a \<Rightarrow> 'a)
     \<Rightarrow> DDIMScheduler \<Rightarrow> 'a \<Rightarrow> real \<Rightarrow> int \<Rightarrow> int \<Rightarrow> bool \<Rightarrow> 'k
     \<Rightarrow> error + (('a::real_vector) \<times> 'a \<times> image list \<times> (nat \<times> 'a) list) \<times> 'rng"
where
  "generate_samples sample_noise diff_map rng model sched imgs eta_arg num_steps start patch
       kind =
     (case sampler_run sample_noise rng model sched imgs eta_arg num_steps start kind of
        Inl e \<Rightarrow> Inl e
      | Inr ((current_sample, trajectory, queries), rng') \<Rightarrow>
          Inr ((imgs, current_sample, diff_map imgs current_sample, trajectory), rng'))"

section \<open>The anomaly mapper\<close>

text \<open>
  Modelled from the spec: \<open>diff_map_to_anomaly_map\<close> of section 4.4
  (\<^verbatim>\<open>utils/anomalies.py\<close> is not among the sources): it "applies a fixed-radius
  Gaussian-like blur" and "thresholds at the given cutoff", and "must preserve spatial
  dimensions exactly; fails with ShapeMismatchError on mismatched inputs". The blur is
  the \<open>GaussianBlur\<close> object of line 129: normalised Gaussian weights over
  \<open>kernel_size\<close> taps per axis, the map mirrored at its border, which needs a map
  larger than the kernel's radius. The pointwise rule applied at the cutoff is left
  open by the spec and is the parameter \<open>sharpen\<close>.
\<close>

definition gaussian_kernel1d :: "GaussianBlur \<Rightarrow> real list" where
  "gaussian_kernel1d b =
     (let k = nat (kernel_size b);
          pdf = map (\<lambda>i. exp (- (((real i - (real k - 1) / 2) / sigma b)\<^sup>2) / 2)) [0..<k]
      in map (\<lambda>p. p / sum_list pdf) pdf)"

definition reflect :: "nat \<Rightarrow> int \<Rightarrow> nat" where
  "reflect n i = nat (if i < 0 then - i else if int n \<le> i then 2 * (int n - 1) - i else i)"

definition width :: "image \<Rightarrow> nat" where
  "width img = (case img of [] \<Rightarrow> 0 | row # rows \<Rightarrow> length row)"

definition rectangular :: "image \<Rightarrow> bool" where
  "rectangular img = list_all (\<lambda>row. length row = width img) img"

definition blur_image :: "GaussianBlur \<Rightarrow> image \<Rightarrow> image" where
  "blur_image b img =
     (let w = gaussian_kernel1d b; k = length w; r = k div 2
      in map (\<lambda>y. map (\<lambda>x.
             (\<Sum>dy\<leftarrow>[0..<k]. \<Sum>dx\<leftarrow>[0..<k].
                w ! dy * w ! dx
                  * img ! reflect (length img) (int y + int dy - int r)
                        ! reflect (width img) (int x + int dx - int r)))
           [0..<width img]) [0..<length img])"

definition diff_map_to_anomaly_map ::
  "(real \<Rightarrow> real \<Rightarrow> real) \<Rightarrow> image list \<Rightarrow> real \<Rightarrow> GaussianBlur \<Rightarrow> error + image list"
where
  "diff_map_to_anomaly_map sharpen diff_maps cutoff blur =
     (if \<not> list_all rectangular diff_maps then Inl ShapeMismatchError
      else if \<not> list_all (\<lambda>m. nat (kernel_size blur) div 2 < length m
                              \<and> nat (kernel_size blur) div 2 < width m) diff_maps
      then Inl RuntimeError
      else Inr (map (\<lambda>m. map (map (sharpen cutoff)) (blur_image blur m)) diff_maps))"

text \<open>The spatial size of a map: its height and the lengths of its rows.\<close>

definition spatial_dims :: "image \<Rightarrow> nat \<times> nat list" where
  "spatial_dims img = (length img, map length img)"

section \<open>Auxiliary notions and concrete inputs\<close>

text \<open>The dictionary a report carries.\<close>

fun report_scores :: "report \<Rightarrow> scores" where
  "report_scores (AddScalars tag d step) = d"
| "report_scores (AddHparams d) = d"
| "report_scores (Print d) = d"
| "report_scores (SetPostfix d) = d"

text \<open>
  The endpoint shapes of \<^verbatim>\<open>efficientnet-b4\<close> for a batch of \<open>n\<close> images of 224 by 224
  pixels, and the arguments of a one-epoch training run at that resolution.
\<close>

definition b4_endpoints :: "nat \<Rightarrow> shape list" where
  "b4_endpoints n =
     [(n, 24, 112, 112), (n, 32, 56, 56), (n, 56, 28, 28), (n, 160, 14, 14),
      (n, 448, 7, 7), (n, 1792, 7, 7)]"

definition demo_train_args :: TrainArgs where
  "demo_train_args =
     \<lparr>TrainArgs.checkpoint_dir = ''checkpoints'', log_dir = ''logs'', run_name = ''run'',
      mvtec_item = ''bottle'', resolution = 224, epochs = 1, save_n_epochs = 1,
      dataset_path = ''data'', train_steps = 1000, beta_schedule = ''linear'', device = ''cuda'',
      reconstruction_weight = 1, eta = 0, batch_size = 64, noise_kind = ''gaussian'',
      plt_imgs = False, img_dir = None, calc_val_loss = False, crop = False\<rparr>"

text \<open>
  The metric mappings of the batches of an inference run, in order: for each batch the
  mapping that \<open>run_inference_step\<close> adds, which is what it returns on an empty counter.
  The list ends at the first batch that raises.
\<close>

fun batch_metrics ::
  "('i \<Rightarrow> 't list) \<Rightarrow> ('t \<Rightarrow> nat \<times> nat \<Rightarrow> error + 't) \<Rightarrow> ('t list \<Rightarrow> error + 't)
     \<Rightarrow> ('rng \<Rightarrow> 'net \<Rightarrow> 'sched \<Rightarrow> 't \<Rightarrow> real \<Rightarrow> int \<Rightarrow> int \<Rightarrow> bool \<Rightarrow> 'k
          \<Rightarrow> error + ('t \<times> 't \<times> image list \<times> 'h) \<times> 'rng)
     \<Rightarrow> (image list \<Rightarrow> real \<Rightarrow> GaussianBlur \<Rightarrow> error + image list)
     \<Rightarrow> (image list \<Rightarrow> image list \<Rightarrow> error + scores)
     \<Rightarrow> 'net \<Rightarrow> 'k \<Rightarrow> 'sched \<Rightarrow> InferenceArgs
     \<Rightarrow> (nat \<times> 'i \<times> string list \<times> image list) list \<Rightarrow> 'rng \<Rightarrow> scores list"
where
  "batch_metrics ext interp cat gen to_map score model kind sched args [] rng = []"
| "batch_metrics ext interp cat gen to_map score model kind sched args
       ((i, imgs, states, gts) # rest) rng =
     (case prepare_batch ext interp cat i imgs of
        Inl e \<Rightarrow> []
      | Inr (i', fea_cat) \<Rightarrow>
          (case run_inference_step gen to_map score rng diffmap_blur Map.empty gts i' fea_cat
                  model kind sched states (InferenceArgs.eta args) (num_inference_steps args)
                  (start_at_timestep args) (patch_imgs args) (InferenceArgs.plt_imgs args)
                  (InferenceArgs.img_dir args) of
             Inl e \<Rightarrow> []
           | Inr (m, rng') \<Rightarrow>
               m # batch_metrics ext interp cat gen to_map score model kind sched args rest rng'))"

text \<open>Arguments and files of an inference run over two batches.\<close>

definition demo_inference_args :: InferenceArgs where
  "demo_inference_args =
     \<lparr>num_inference_steps = 50, start_at_timestep = 300, InferenceArgs.reconstruction_weight = 1,
      InferenceArgs.mvtec_item = ''bottle'', mvtec_item_states = [''all''],
      InferenceArgs.checkpoint_dir = ''ckpt'', checkpoint_name = ''epoch_50.pt'',
      InferenceArgs.log_dir = ''logs'', InferenceArgs.train_steps = 1000,
      InferenceArgs.beta_schedule = ''linear'', InferenceArgs.eta = 0,
      InferenceArgs.device = ''cuda'', InferenceArgs.dataset_path = ''data'', shuffle = False,
      InferenceArgs.img_dir = ''generated_imgs'', InferenceArgs.plt_imgs = False,
      patch_imgs = False, run_id = ''inference'', InferenceArgs.batch_size = 64\<rparr>"

definition demo_disk :: disk where
  "demo_disk =
     ([''ckpt/model_config.json'' \<mapsto> JsonFile (JObj [(''sample_size'', JInt 224)]),
       ''ckpt/train_arg_config.json'' \<mapsto> JsonFile (JObj []),
       ''ckpt/epoch_50.pt'' \<mapsto> StateDict], [])"

text \<open>
  A \<open>save_args\<close> for concrete runs: it stores the dictionary as the JSON file
  \<^verbatim>\<open>{directory}/{name}.json\<close>.
\<close>

definition demo_save_args :: "json \<Rightarrow> string \<Rightarrow> string \<Rightarrow> disk \<Rightarrow> error + disk" where
  "demo_save_args obj dir name d = Inr (write_file (dir @ ''/'' @ name @ ''.json'') (JsonFile obj) d)"

section \<open>The inference loop and the function it calls\<close>

lemma inference_loop_Nil [simp]:
  "inference_loop ext interp cat gen to_map score model kind sched args [] (eval_scores, rng) =
     Inr (eval_scores, rng)"
  by (simp add: inference_loop_def)

lemma inference_loop_Cons [simp]:
  "inference_loop ext interp cat gen to_map score model kind sched args
       ((i, imgs, states, gts) # rest) (eval_scores, rng) =
     (case prepare_batch ext interp cat i imgs of
        Inl e \<Rightarrow> Inl e
      | Inr (i', fea_cat) \<Rightarrow>
          (case run_inference_step gen to_map score rng diffmap_blur eval_scores gts i' fea_cat
                  model kind sched states (InferenceArgs.eta args) (num_inference_steps args)
                  (start_at_timestep args) (patch_imgs args) (InferenceArgs.plt_imgs args)
                  (InferenceArgs.img_dir args) of
             Inl e \<Rightarrow> Inl e
           | Inr st \<Rightarrow>
               inference_loop ext interp cat gen to_map score model kind sched args rest st))"
  unfolding inference_loop_def by simp

section \<open>The batch index handed to \<open>run_inference_step\<close>\<close>

lemma resize_features_last:
  "js \<noteq> [] \<Longrightarrow> resize_features interp js st = Inr (i', fs') \<Longrightarrow> i' = last js"
proof (induction js arbitrary: st)
  case Nil
  then show ?case by simp
next
  case (Cons j js)
  obtain i fs where st: "st = (i, fs)" by (cases st)
  show ?case
  proof (cases "js = []")
    case True
    with Cons.prems show ?thesis
      unfolding st by (auto split: if_splits sum.splits)
  next
    case False
    from Cons.prems obtain f where
      "resize_features interp js (j, fs[j := f]) = Inr (i', fs')"
      unfolding st by (auto split: if_splits sum.splits)
    from Cons.IH[OF False this] False show ?thesis by simp
  qed
qed

lemma prepare_batch_index:
  "prepare_batch ext interp cat i imgs = Inr (i', fea_cat) \<Longrightarrow> i' = 3"
proof -
  assume a: "prepare_batch ext interp cat i imgs = Inr (i', fea_cat)"
  then obtain fs' where
    "resize_features interp [0..<4] (i, take (length (ext imgs) - 2) (ext imgs)) = Inr (i', fs')"
    unfolding prepare_batch_def Let_def by (auto split: sum.splits)
  from resize_features_last[OF _ this] show ?thesis by simp
qed

lemma prepare_batch_b4:
  "prepare_batch (\<lambda>u::unit. b4_endpoints 2) interpolate_shape cat_shape i () =
     Inr (3, (2, 272, 32, 32))"
  by (simp add: prepare_batch_def b4_endpoints_def interpolate_shape_def cat_shape_def
        channels_def upt_rec)

lemma inference_loop_calling_three:
  "inference_loop_calling step ext interp cat model kind sched args bs st =
     inference_loop_calling (\<lambda>rng blur es gts btc_idx. step rng blur es gts 3)
       ext interp cat model kind sched args bs st"
proof (induction bs arbitrary: st)
  case Nil
  then show ?case by (cases st) simp
next
  case (Cons b bs)
  obtain i imgs states gts where b: "b = (i, imgs, states, gts)" by (cases b) auto
  obtain es rng where st: "st = (es, rng)" by (cases st)
  show ?case
  proof (cases "prepare_batch ext interp cat i imgs")
    case (Inl e)
    then show ?thesis unfolding b st by simp
  next
    case (Inr r)
    obtain j fea where r: "r = (j, fea)" by (cases r)
    from Inr r have j: "j = 3" by (auto dest: prepare_batch_index)
    show ?thesis
      unfolding b st using Inr r j Cons.IH by (simp split: sum.splits)
  qed
qed

text \<open>
  C9. Whatever position \<open>i\<close> the enumeration gives a batch, the variable \<open>i\<close> holds 3
  when the feature preparation of lines 140-145 ends without an exception, and this
  is the value in the place of \<open>btc_idx\<close> in the call of lines 146-148, for every
  function \<open>step\<close> that is called there: the loop body is the call with the literal 3,
  a whole run cannot tell the callee from the one that has its \<open>btc_idx\<close> replaced by
  3, and the loop of \<open>main\<close> is this loop calling \<open>run_inference_step\<close>.
\<close>

theorem btc_idx_always_three:
  "(prepare_batch ext interp cat i imgs = Inr (i', fea_cat) \<longrightarrow> i' = 3) \<and>
   inference_loop_calling step ext interp cat model kind sched args
       ((i, imgs, states, gts) # rest) (eval_scores, rng) =
     (case prepare_batch ext interp cat i imgs of
        Inl e \<Rightarrow> Inl e
      | Inr (j, fea) \<Rightarrow>
          (case step rng diffmap_blur eval_scores gts 3 fea model kind sched states
                  (InferenceArgs.eta args) (num_inference_steps args) (start_at_timestep args)
                  (patch_imgs args) (InferenceArgs.plt_imgs args) (InferenceArgs.img_dir args) of
             Inl e \<Rightarrow> Inl e
           | Inr st \<Rightarrow>
               inference_loop_calling step ext interp cat model kind sched args rest st)) \<and>
   inference_loop_calling step ext interp cat model kind sched args bs st0 =
     inference_loop_calling (\<lambda>rng blur es gts btc_idx. step rng blur es gts 3)
       ext interp cat model kind sched args bs st0 \<and>
   inference_loop ext interp cat gen to_map score model kind sched args bs st0 =
     inference_loop_calling (run_inference_step gen to_map score)
       ext interp cat model kind sched args bs st0"
proof (intro conjI impI)
  assume "prepare_batch ext interp cat i imgs = Inr (i', fea_cat)"
  then show "i' = 3" by (rule prepare_batch_index)
next
  show "inference_loop_calling step ext interp cat model kind sched args
       ((i, imgs, states, gts) # rest) (eval_scores, rng) =
     (case prepare_batch ext interp cat i imgs of
        Inl e \<Rightarrow> Inl e
      | Inr (j, fea) \<Rightarrow>
          (case step rng diffmap_blur eval_scores gts 3 fea model kind sched states
                  (InferenceArgs.eta args) (num_inference_steps args) (start_at_timestep args)
                  (patch_imgs args) (InferenceArgs.plt_imgs args) (InferenceArgs.img_dir args) of
             Inl e \<Rightarrow> Inl e
           | Inr st \<Rightarrow>
               inference_loop_calling step ext interp cat model kind sched args rest st))"
  proof (cases "prepare_batch ext interp cat i imgs")
    case (Inl e)
    then show ?thesis by simp
  next
    case (Inr r)
    obtain j fea where r: "r = (j, fea)" by (cases r)
    from Inr r have "j = 3" by (auto dest: prepare_batch_index)
    with Inr r show ?thesis by simp
  qed
next
  show "inference_loop_calling step ext interp cat model kind sched args bs st0 =
     inference_loop_calling (\<lambda>rng blur es gts btc_idx. step rng blur es gts 3)
       ext interp cat model kind sched args bs st0"
    by (rule inference_loop_calling_three)
next
  show "inference_loop ext interp cat gen to_map score model kind sched args bs st0 =
     inference_loop_calling (run_inference_step gen to_map score)
       ext interp cat model kind sched args bs st0"
    by (simp add: inference_loop_def)
qed

text \<open>
  A run over two batches, at the positions 0 and 1, with a callee that appends the
  \<open>btc_idx\<close> it receives to a list: both entries are 3.
\<close>

theorem btc_idx_always_three_witness:
  "(\<exists>fea. prepare_batch (\<lambda>u::unit. b4_endpoints 2) interpolate_shape cat_shape 7 () = Inr (3, fea)) \<and>
   inference_loop_calling
       (\<lambda>(calls::nat list) blur es gts btc_idx fea (model::unit) (kind::unit) (sched::unit)
           states e n s p pl d. Inr (es, calls @ [btc_idx]))
       (\<lambda>u::unit. b4_endpoints 2) interpolate_shape cat_shape () () () demo_inference_args
       (enumerate 0 [((), [''good''], []), ((), [''broken''], [])]) (Map.empty, []) =
     Inr (Map.empty, [3, 3])"
proof (intro conjI)
  obtain j fea where
    e: "prepare_batch (\<lambda>u::unit. b4_endpoints 2) interpolate_shape cat_shape 7 () = Inr (j, fea)"
    using prepare_batch_b4 by blast
  have "j = 3"
    using btc_idx_always_three [THEN conjunct1, of "\<lambda>u::unit. b4_endpoints 2" interpolate_shape
        cat_shape 7 "()" j fea] e by simp
  with e show "\<exists>fea. prepare_batch (\<lambda>u::unit. b4_endpoints 2) interpolate_shape cat_shape 7 ()
      = Inr (3, fea)"
    by blast
next
  let ?step = "\<lambda>(calls::nat list) (blur::GaussianBlur) (es::scores) (gts::image list)
      (btc_idx::nat) (fea::shape) (model::unit) (kind::unit) (sched::unit)
      (states::string list) (e::real) (n::int) (s::int) (p::bool) (pl::bool) (d::string).
      (Inr (es, calls @ [btc_idx]) :: error + scores \<times> nat list)"
  have "inference_loop_calling ?step
       (\<lambda>u::unit. b4_endpoints 2) interpolate_shape cat_shape () () () demo_inference_args
       ((0, (), [''good''], []) # [(1, (), [''broken''], [])]) (Map.empty, []) =
     (case prepare_batch (\<lambda>u::unit. b4_endpoints 2) interpolate_shape cat_shape 0 () of
        Inl e \<Rightarrow> Inl e
      | Inr (j, fea) \<Rightarrow>
          (case ?step [] diffmap_blur Map.empty [] 3 fea () () () [''good'']
                  (InferenceArgs.eta demo_inference_args)
                  (num_inference_steps demo_inference_args)
                  (start_at_timestep demo_inference_args)
                  (patch_imgs demo_inference_args) (InferenceArgs.plt_imgs demo_inference_args)
                  (InferenceArgs.img_dir demo_inference_args) of
             Inl e \<Rightarrow> Inl e
           | Inr st \<Rightarrow>
               inference_loop_calling ?step
                 (\<lambda>u::unit. b4_endpoints 2) interpolate_shape cat_shape () () ()
                 demo_inference_args [(1, (), [''broken''], [])] st))"
    by (rule btc_idx_always_three [THEN conjunct2, THEN conjunct1])
  then show "inference_loop_calling ?step
       (\<lambda>u::unit. b4_endpoints 2) interpolate_shape cat_shape () () () demo_inference_args
       (enumerate 0 [((), [''good''], []), ((), [''broken''], [])]) (Map.empty, []) =
     Inr (Map.empty, [3, 3])"
    by (simp add: prepare_batch_b4 enumerate_eq_zip)
qed

section \<open>The score counter of a training epoch\<close>

lemma validation_loop_scores:
  "validation_loop vs model ns args epoch loader (l, sc, w) = Inr (l', sc', w')
   \<Longrightarrow> sc' = sc \<and> w' = w @ replicate (length loader) (AddScalars ''scores'' sc epoch)"
proof (induction loader arbitrary: l w)
  case Nil
  then show ?case by simp
next
  case (Cons b bs)
  obtain batch labels gts where b: "b = (batch, labels, gts)" by (cases b) auto
  from Cons.prems obtain loss where
    "validation_loop vs model ns args epoch bs
       (l + loss, sc, w @ [AddScalars ''scores'' sc epoch]) = Inr (l', sc', w')"
    unfolding b by (auto split: sum.splits if_splits)
  from Cons.IH[OF this] show ?case by (simp add: replicate_append_same)
qed

lemma average_scores_empty: "average_scores Map.empty n = Inr Map.empty"
  by (simp add: average_scores_def)

lemma validation_phase_empty:
  "validation_phase vs model ns args epoch n_train loader w = Inr (l', sc', w')
   \<Longrightarrow> sc' = Map.empty \<and>
       w' = w @ replicate (length loader) (AddScalars ''scores'' Map.empty epoch)
              @ [SetPostfix Map.empty]"
  unfolding validation_phase_def
  by (auto split: sum.splits if_splits prod.splits dest!: validation_loop_scores
        simp: average_scores_empty)

lemma run_epoch_reports:
  "run_epoch ext interp cat ts vs str ns args dir trl tel epoch (model, fs, w) =
     Inr (l, model', fs', w')
   \<Longrightarrow> w' = w @ replicate (length tel) (AddScalars ''scores'' Map.empty epoch)
              @ [SetPostfix Map.empty]"
  unfolding run_epoch_def
  by (auto split: sum.splits if_splits prod.splits dest!: validation_phase_empty)

lemma train_epochs_reports:
  "train_epochs ext interp cat ts vs str ns args dir trl tel es (l0, model, fs, w) =
     Inr (l, model', fs', w')
   \<Longrightarrow> (\<forall>r\<in>set w. report_scores r = Map.empty)
   \<Longrightarrow> (\<forall>r\<in>set w'. report_scores r = Map.empty) \<and>
       length w' = length w + length es * (length tel + 1)"
proof (induction es arbitrary: l0 model fs w)
  case Nil
  then show ?case by simp
next
  case (Cons e es)
  from Cons.prems(1) obtain l1 m1 fs1 w1 where
    r: "run_epoch ext interp cat ts vs str ns args dir trl tel e (model, fs, w) =
          Inr (l1, m1, fs1, w1)"
    and t: "train_epochs ext interp cat ts vs str ns args dir trl tel es (Some l1, m1, fs1, w1) =
          Inr (l, model', fs', w')"
    by (auto split: sum.splits)
  have w1: "w1 = w @ replicate (length tel) (AddScalars ''scores'' Map.empty e)
                   @ [SetPostfix Map.empty]"
    using run_epoch_reports[OF r] .
  have "\<forall>r\<in>set w1. report_scores r = Map.empty"
    using Cons.prems(2) unfolding w1 by auto
  from Cons.IH[OF t this] show ?case unfolding w1 by simp
qed

lemma train_main_reports:
  "train_main save unet ddpm ddim ext interp cat ts vs str args stamp trl tel fs = Inr (fs', written)
   \<Longrightarrow> (\<forall>r\<in>set written. report_scores r = Map.empty) \<and>
       length written = nat (epochs args) * (length tel + 1)"
  unfolding train_main_def Let_def
  by (auto split: sum.splits option.splits prod.splits dest!: train_epochs_reports)

lemma validation_phase_demo:
  "validation_phase (\<lambda>(m::unit) (b::unit) (d::unit) t. Inr 1) () () demo_train_args 5 1
       [((), (), []), ((), (), [])] [] =
     Inr (0, Map.empty,
          [AddScalars ''scores'' Map.empty 5, AddScalars ''scores'' Map.empty 5,
           SetPostfix Map.empty])"
  by (simp add: validation_phase_def demo_train_args_def average_scores_def)

lemma train_main_demo:
  "\<exists>fs'. train_main demo_save_args (\<lambda>j. Inr ()) (\<lambda>T k. Inr ()) (\<lambda>T s k sp w. Inr ())
        (\<lambda>u::unit. b4_endpoints 2) interpolate_shape cat_shape
        (\<lambda>m f d T k. Inr (1, ())) (\<lambda>m b d T. Inr 1) (\<lambda>n. ''n'')
        demo_train_args ''1700000000.'' [((), ())] [((), (), [])] (Map.empty, []) =
        Inr (fs', [AddScalars ''scores'' Map.empty 0, SetPostfix Map.empty])"
  by (simp add: train_main_def train_setup_def model_args_def channel_multiplier_def
       demo_train_args_def demo_save_args_def write_file_def run_epoch_def validation_phase_def
       average_scores_def prepare_batch_b4 Let_def)

text \<open>
  C10. In every training epoch the counter \<open>scores\<close> is empty when it is logged and
  when it is averaged: a validation phase that ends without an exception returns the
  empty counter, having handed the empty dictionary to \<open>writer.add_scalars\<close> once per
  test batch and to the progress bar once; and every dictionary a whole training run
  reports is empty, one report per test batch and one postfix per epoch.
\<close>

theorem training_scores_always_empty:
  "(validation_phase vs model ns args epoch n_train loader w = Inr (l', sc', w') \<longrightarrow>
      sc' = Map.empty \<and>
      w' = w @ replicate (length loader) (AddScalars ''scores'' Map.empty epoch)
             @ [SetPostfix Map.empty]) \<and>
   (train_main save unet ddpm ddim ext interp cat ts vs' str args stamp trl tel fs = Inr (fs', written) \<longrightarrow>
      (\<forall>r\<in>set written. report_scores r = Map.empty) \<and>
      length written = nat (epochs args) * (length tel + 1))"
  using validation_phase_empty[of vs model ns args epoch n_train loader w l' sc' w']
    train_main_reports[of save unet ddpm ddim ext interp cat ts vs' str args stamp trl tel fs fs' written]
  by blast

theorem training_scores_always_empty_witness:
  "(\<exists>l sc w. validation_phase (\<lambda>(m::unit) (b::unit) (d::unit) t. Inr 1) () () demo_train_args 5 1
        [((), (), []), ((), (), [])] [] = Inr (l, sc, w) \<and> sc = Map.empty \<and> length w = 3) \<and>
   (\<exists>fs' written. train_main demo_save_args (\<lambda>j. Inr ()) (\<lambda>T k. Inr ()) (\<lambda>T s k sp w. Inr ())
        (\<lambda>u::unit. b4_endpoints 2) interpolate_shape cat_shape
        (\<lambda>m f d T k. Inr (1, ())) (\<lambda>m b d T. Inr 1) (\<lambda>n. ''n'')
        demo_train_args ''1700000000.'' [((), ())] [((), (), [])] (Map.empty, []) =
        Inr (fs', written) \<and> (\<forall>r\<in>set written. report_scores r = Map.empty) \<and>
        length written = 2)"
proof (intro conjI)
  obtain l sc w where
    v: "validation_phase (\<lambda>(m::unit) (b::unit) (d::unit) t. Inr 1) () () demo_train_args 5 1
          [((), (), []), ((), (), [])] [] = Inr (l, sc, w)"
    using validation_phase_demo by blast
  from training_scores_always_empty [THEN conjunct1, rule_format, OF v]
  have "sc = Map.empty" and "length w = 3" by simp_all
  with v show "\<exists>l sc w. validation_phase (\<lambda>(m::unit) (b::unit) (d::unit) t. Inr 1) () ()
        demo_train_args 5 1 [((), (), []), ((), (), [])] [] = Inr (l, sc, w) \<and>
        sc = Map.empty \<and> length w = 3"
    by blast
next
  obtain fs' written where
    t: "train_main demo_save_args (\<lambda>j. Inr ()) (\<lambda>T k. Inr ()) (\<lambda>T s k sp w. Inr ())
        (\<lambda>u::unit. b4_endpoints 2) interpolate_shape cat_shape
        (\<lambda>m f d T k. Inr (1, ())) (\<lambda>m b d T. Inr 1) (\<lambda>n. ''n'')
        demo_train_args ''1700000000.'' [((), ())] [((), (), [])] (Map.empty, []) =
        Inr (fs', written)"
    using train_main_demo by blast
  from training_scores_always_empty [THEN conjunct2, rule_format, OF t]
  have "\<forall>r\<in>set written. report_scores r = Map.empty" and "length written = 2"
    by (simp_all add: demo_train_args_def)
  with t show "\<exists>fs' written. train_main demo_save_args (\<lambda>j. Inr ()) (\<lambda>T k. Inr ()) (\<lambda>T s k sp w. Inr ())
        (\<lambda>u::unit. b4_endpoints 2) interpolate_shape cat_shape
        (\<lambda>m f d T k. Inr (1, ())) (\<lambda>m b d T. Inr 1) (\<lambda>n. ''n'')
        demo_train_args ''1700000000.'' [((), ())] [((), (), [])] (Map.empty, []) =
        Inr (fs', written) \<and> (\<forall>r\<in>set written. report_scores r = Map.empty) \<and>
        length written = 2"
    by blast
qed

section \<open>The conditioning features\<close>

lemma prepare_batch_six:
  assumes "ext imgs = [e1, e2, e3, e4, e5, e6]"
    and "interp e1 (32, 32) = Inr f1" and "interp e2 (32, 32) = Inr f2"
    and "interp e3 (32, 32) = Inr f3" and "interp e4 (32, 32) = Inr f4"
  shows "prepare_batch ext interp cat i imgs =
           (case cat [f1, f2, f3, f4] of Inl e \<Rightarrow> Inl e | Inr fea \<Rightarrow> Inr (3, fea))"
  using assms
  by (cases "cat [f1, f2, f3, f4]") (simp_all add: prepare_batch_def upt_rec numeral_3_eq_3)

lemma interpolate_shape_ok:
  "0 < n \<Longrightarrow> 0 < c \<Longrightarrow> 0 < h \<Longrightarrow> 0 < w
   \<Longrightarrow> interpolate_shape (n, c, h, w) (32, 32) = Inr (n, c, 32, 32)"
  by (simp add: interpolate_shape_def)

lemma prepare_batch_b4_shape:
  assumes ch: "map channels (ext imgs) = efficientnet_b4_channels"
    and ok: "\<forall>s\<in>set (ext imgs). fst s = n \<and> 0 < fst (snd (snd s)) \<and> 0 < snd (snd (snd s))"
    and n: "0 < n"
  shows "prepare_batch ext interpolate_shape cat_shape i imgs = Inr (3, (n, 272, 32, 32))"
proof -
  from ch obtain e1 e2 e3 e4 e5 e6 where
    es: "ext imgs = [e1, e2, e3, e4, e5, e6]"
    and c: "channels e1 = 24" "channels e2 = 32" "channels e3 = 56" "channels e4 = 160"
    unfolding efficientnet_b4_channels_def by (auto simp: map_eq_Cons_conv)
  have sh: "\<exists>h w. e = (n, channels e, h, w) \<and> 0 < h \<and> 0 < w" if "e \<in> set (ext imgs)" for e
    using ok that by (cases e) (auto simp: channels_def)
  obtain h1 w1 where e1: "e1 = (n, 24, h1, w1)" "0 < h1" "0 < w1" using sh[of e1] es c by auto
  obtain h2 w2 where e2: "e2 = (n, 32, h2, w2)" "0 < h2" "0 < w2" using sh[of e2] es c by auto
  obtain h3 w3 where e3: "e3 = (n, 56, h3, w3)" "0 < h3" "0 < w3" using sh[of e3] es c by auto
  obtain h4 w4 where e4: "e4 = (n, 160, h4, w4)" "0 < h4" "0 < w4" using sh[of e4] es c by auto
  have "prepare_batch ext interpolate_shape cat_shape i imgs =
          (case cat_shape [(n, 24, 32, 32), (n, 32, 32, 32), (n, 56, 32, 32), (n, 160, 32, 32)] of
             Inl e \<Rightarrow> Inl e | Inr fea \<Rightarrow> Inr (3, fea))"
    by (rule prepare_batch_six[where ext = ext and imgs = imgs, OF es])
       (simp_all add: e1 e2 e3 e4 n interpolate_shape_ok)
  then show ?thesis by (simp add: cat_shape_def channels_def)
qed

lemma model_args_in_channels:
  "model_args args = Inr margs \<Longrightarrow> dict_index margs ''in_channels'' = Inr (JInt 272)"
  by (auto simp: model_args_def dict_index_def Let_def split: sum.splits)

text \<open>
  C6. For every batch the conditioning features are built from the extractor's
  endpoints without the last two: with six endpoints, each of the four retained ones is
  resized to 32 by 32 and the four results are concatenated (for any resize and
  concatenation operation). On shapes, with the six endpoints of \<^verbatim>\<open>efficientnet-b4\<close>
  for a batch of \<open>n > 0\<close> images, the result has shape (n, 272, 32, 32), and 272 is the
  \<open>in_channels\<close> entry of the model arguments training builds the network from.
\<close>

theorem conditioning_features_272:
  "(ext imgs = [e1, e2, e3, e4, e5, e6] \<and> interp e1 (32, 32) = Inr f1 \<and>
      interp e2 (32, 32) = Inr f2 \<and> interp e3 (32, 32) = Inr f3 \<and> interp e4 (32, 32) = Inr f4 \<longrightarrow>
      prepare_batch ext interp cat i imgs =
        (case cat [f1, f2, f3, f4] of Inl e \<Rightarrow> Inl e | Inr fea \<Rightarrow> Inr (3, fea))) \<and>
   (map channels (ext' imgs') = efficientnet_b4_channels \<and>
      (\<forall>s\<in>set (ext' imgs'). fst s = n \<and> 0 < fst (snd (snd s)) \<and> 0 < snd (snd (snd s))) \<and> 0 < n \<longrightarrow>
      prepare_batch ext' interpolate_shape cat_shape i' imgs' = Inr (3, (n, 272, 32, 32))) \<and>
   (model_args args = Inr margs \<longrightarrow> dict_index margs ''in_channels'' = Inr (JInt 272))"
proof (intro conjI impI)
  assume "ext imgs = [e1, e2, e3, e4, e5, e6] \<and> interp e1 (32, 32) = Inr f1 \<and>
      interp e2 (32, 32) = Inr f2 \<and> interp e3 (32, 32) = Inr f3 \<and> interp e4 (32, 32) = Inr f4"
  then show "prepare_batch ext interp cat i imgs =
        (case cat [f1, f2, f3, f4] of Inl e \<Rightarrow> Inl e | Inr fea \<Rightarrow> Inr (3, fea))"
    using prepare_batch_six[of ext imgs e1 e2 e3 e4 e5 e6 interp f1 f2 f3 f4 cat i] by blast
next
  assume "map channels (ext' imgs') = efficientnet_b4_channels \<and>
      (\<forall>s\<in>set (ext' imgs'). fst s = n \<and> 0 < fst (snd (snd s)) \<and> 0 < snd (snd (snd s))) \<and> 0 < n"
  then show "prepare_batch ext' interpolate_shape cat_shape i' imgs' = Inr (3, (n, 272, 32, 32))"
    using prepare_batch_b4_shape[of ext' imgs' n i'] by blast
next
  assume "model_args args = Inr margs"
  then show "dict_index margs ''in_channels'' = Inr (JInt 272)"
    by (rule model_args_in_channels)
qed

theorem conditioning_features_272_witness:
  "prepare_batch (\<lambda>u::unit. b4_endpoints 2) interpolate_shape cat_shape 7 () =
     (case cat_shape [(2, 24, 32, 32), (2, 32, 32, 32), (2, 56, 32, 32), (2, 160, 32, 32)] of
        Inl e \<Rightarrow> Inl e | Inr fea \<Rightarrow> Inr (3, fea)) \<and>
   prepare_batch (\<lambda>u::unit. b4_endpoints 2) interpolate_shape cat_shape 7 () =
     Inr (3, (2, 272, 32, 32)) \<and>
   (\<exists>margs. model_args demo_train_args = Inr margs \<and>
      dict_index margs ''in_channels'' = Inr (JInt 272))"
proof (intro conjI)
  show "prepare_batch (\<lambda>u::unit. b4_endpoints 2) interpolate_shape cat_shape 7 () =
     (case cat_shape [(2, 24, 32, 32), (2, 32, 32, 32), (2, 56, 32, 32), (2, 160, 32, 32)] of
        Inl e \<Rightarrow> Inl e | Inr fea \<Rightarrow> Inr (3, fea))"
    by (rule conditioning_features_272 [THEN conjunct1, rule_format,
          where ext = "\<lambda>u::unit. b4_endpoints 2" and imgs = "()" and interp = interpolate_shape
            and ?e1.0 = "(2, 24, 112, 112)" and ?e2.0 = "(2, 32, 56, 56)"
            and ?e3.0 = "(2, 56, 28, 28)" and ?e4.0 = "(2, 160, 14, 14)"
            and ?e5.0 = "(2, 448, 7, 7)" and ?e6.0 = "(2, 1792, 7, 7)"])
       (simp add: b4_endpoints_def interpolate_shape_def)
next
  show "prepare_batch (\<lambda>u::unit. b4_endpoints 2) interpolate_shape cat_shape 7 () =
     Inr (3, (2, 272, 32, 32))"
    by (rule conditioning_features_272 [THEN conjunct2, THEN conjunct1, rule_format])
       (simp add: b4_endpoints_def efficientnet_b4_channels_def channels_def)
next
  obtain margs where m: "model_args demo_train_args = Inr margs"
    by (simp add: model_args_def channel_multiplier_def demo_train_args_def)
  from conditioning_features_272 [THEN conjunct2, THEN conjunct2, rule_format, OF m] m
  show "\<exists>margs. model_args demo_train_args = Inr margs \<and>
      dict_index margs ''in_channels'' = Inr (JInt 272)"
    by blast
qed

section \<open>The score accumulator\<close>

lemma counter_update_empty: "counter_update Map.empty m = m"
  by (rule ext) (simp add: counter_update_def counter_get_def split: option.splits)

lemma run_inference_step_update:
  "run_inference_step gen to_map score rng blur sc gts i fea model kind sched states e n s p pl d
     = Inr (sc', rng')
   \<Longrightarrow> \<exists>m. run_inference_step gen to_map score rng blur Map.empty gts i fea model kind sched
              states e n s p pl d = Inr (m, rng') \<and> sc' = counter_update sc m"
  unfolding run_inference_step_def
  by (auto split: sum.splits prod.splits simp: counter_update_empty)

lemma inference_loop_metrics:
  "inference_loop ext interp cat gen to_map score model kind sched args bs (sc, rng) = Inr (sc', rng')
   \<Longrightarrow> sc' = foldl counter_update sc
               (batch_metrics ext interp cat gen to_map score model kind sched args bs rng) \<and>
       length (batch_metrics ext interp cat gen to_map score model kind sched args bs rng) = length bs"
proof (induction bs arbitrary: sc rng)
  case Nil
  then show ?case by simp
next
  case (Cons b bs)
  obtain i imgs states gts where b: "b = (i, imgs, states, gts)" by (cases b) auto
  from Cons.prems obtain i' fea sc1 rng1 where
    p: "prepare_batch ext interp cat i imgs = Inr (i', fea)"
    and r: "run_inference_step gen to_map score rng diffmap_blur sc gts i' fea model kind sched
              states (InferenceArgs.eta args) (num_inference_steps args) (start_at_timestep args)
              (patch_imgs args) (InferenceArgs.plt_imgs args) (InferenceArgs.img_dir args)
            = Inr (sc1, rng1)"
    and l: "inference_loop ext interp cat gen to_map score model kind sched args bs (sc1, rng1)
            = Inr (sc', rng')"
    unfolding b by (auto split: sum.splits prod.splits)
  from run_inference_step_update[OF r] obtain m where
    m: "run_inference_step gen to_map score rng diffmap_blur Map.empty gts i' fea model kind sched
              states (InferenceArgs.eta args) (num_inference_steps args) (start_at_timestep args)
              (patch_imgs args) (InferenceArgs.plt_imgs args) (InferenceArgs.img_dir args)
            = Inr (m, rng1)" and sc1: "sc1 = counter_update sc m"
    by blast
  from Cons.IH[OF l] show ?case
    unfolding b by (simp add: p m sc1)
qed

lemma sum_counter_get_none:
  "\<forall>m\<in>set ms. m k = None \<Longrightarrow> (\<Sum>m\<leftarrow>ms. counter_get m k) = 0"
  by (induction ms) (simp_all add: counter_get_def)

lemma foldl_counter_update_get:
  "foldl counter_update c ms k =
     (if \<exists>m\<in>set ms. m k \<noteq> None
      then Some (counter_get c k + (\<Sum>m\<leftarrow>ms. counter_get m k))
      else c k)"
proof (induction ms arbitrary: c)
  case Nil
  then show ?case by simp
next
  case (Cons m ms)
  show ?case
  proof (cases "m k")
    case None
    then have "counter_update c m k = c k" "counter_get m k = 0"
      "counter_get (counter_update c m) k = counter_get c k"
      by (simp_all add: counter_update_def counter_get_def)
    with None show ?thesis by (auto simp: Cons.IH sum_counter_get_none)
  next
    case (Some v)
    then have "counter_update c m k = Some (v + counter_get c k)" "counter_get m k = v"
      "counter_get (counter_update c m) k = v + counter_get c k"
      by (simp_all add: counter_update_def counter_get_def)
    with Some show ?thesis by (auto simp: Cons.IH algebra_simps sum_counter_get_none)
  qed
qed

lemma foldl_counter_update_empty:
  "foldl counter_update Map.empty ms = Map.empty \<longleftrightarrow> (\<forall>m\<in>set ms. m = Map.empty)"
proof
  assume a: "foldl counter_update Map.empty ms = Map.empty"
  show "\<forall>m\<in>set ms. m = Map.empty"
  proof (intro ballI ext)
    fix m k assume "m \<in> set ms"
    show "m k = None"
    proof (rule ccontr)
      assume "m k \<noteq> None"
      with \<open>m \<in> set ms\<close> have "\<exists>m\<in>set ms. m k \<noteq> None" by blast
      then have "foldl counter_update Map.empty ms k \<noteq> None"
        by (simp add: foldl_counter_update_get)
      with a show False by simp
    qed
  qed
next
  assume "\<forall>m\<in>set ms. m = Map.empty"
  then show "foldl counter_update Map.empty ms = Map.empty"
    by (intro ext) (auto simp: foldl_counter_update_get)
qed

lemma average_of_sum:
  assumes "length ms = n"
  shows "\<exists>final. average_scores (foldl counter_update Map.empty ms) n = Inr final \<and>
     (\<forall>k. final k = (if \<exists>m\<in>set ms. m k \<noteq> None
                     then Some ((\<Sum>m\<leftarrow>ms. counter_get m k) / real n) else None))"
proof (cases "foldl counter_update Map.empty ms = Map.empty")
  case True
  then have "\<forall>m\<in>set ms. m = Map.empty" by (simp add: foldl_counter_update_empty)
  then have "\<forall>k. \<not> (\<exists>m\<in>set ms. m k \<noteq> None)" by auto
  with True show ?thesis by (simp add: average_scores_def)
next
  case False
  then have "ms \<noteq> []" by auto
  with assms have "n \<noteq> 0" by auto
  with False show ?thesis
    by (auto simp: average_scores_def foldl_counter_update_get counter_get_def)
qed

lemma inference_loop_average:
  assumes "inference_loop ext interp cat gen to_map score model kind sched args bs (Map.empty, rng)
             = Inr (sc, rng')"
  shows "length (batch_metrics ext interp cat gen to_map score model kind sched args bs rng)
           = length bs \<and>
         sc = foldl counter_update Map.empty
                (batch_metrics ext interp cat gen to_map score model kind sched args bs rng) \<and>
         (\<exists>final. average_scores sc (length bs) = Inr final \<and>
            (\<forall>k. final k =
               (if \<exists>m\<in>set (batch_metrics ext interp cat gen to_map score model kind sched args bs rng).
                     m k \<noteq> None
                then Some ((\<Sum>m\<leftarrow>batch_metrics ext interp cat gen to_map score model kind sched
                                 args bs rng. counter_get m k) / real (length bs))
                else None)))"
proof -
  let ?ms = "batch_metrics ext interp cat gen to_map score model kind sched args bs rng"
  from inference_loop_metrics[OF assms] have
    sc: "sc = foldl counter_update Map.empty ?ms" and len: "length ?ms = length bs" by simp_all
  from average_of_sum[OF len] sc len show ?thesis by simp
qed

lemma inference_main_scores:
  assumes "inference_main save unet mk ext interp cat gen to_map score args loader fs rng
             = Inr (final, reports, fs')"
  shows "reports = [AddHparams final, Print final] \<and>
         (\<exists>model kind sched.
            length (batch_metrics ext interp cat gen to_map score model kind sched args
                      (enumerate 0 loader) rng) = length loader \<and>
            (\<forall>k. final k =
               (if \<exists>m\<in>set (batch_metrics ext interp cat gen to_map score model kind sched args
                               (enumerate 0 loader) rng). m k \<noteq> None
                then Some ((\<Sum>m\<leftarrow>batch_metrics ext interp cat gen to_map score model kind sched
                                 args (enumerate 0 loader) rng. counter_get m k)
                           / real (length loader))
                else None)))"
proof -
  from assms obtain model kind sched sc rng' where
    l: "inference_loop ext interp cat gen to_map score model kind sched args (enumerate 0 loader)
          (Map.empty, rng) = Inr (sc, rng')"
    and a: "average_scores sc (length loader) = Inr final"
    and r: "reports = [AddHparams final, Print final]"
    unfolding inference_main_def
    by (auto split: sum.splits prod.splits option.splits if_splits)
  let ?ms = "batch_metrics ext interp cat gen to_map score model kind sched args
               (enumerate 0 loader) rng"
  from inference_loop_average[OF l] a have
    "length ?ms = length loader \<and>
     (\<forall>k. final k = (if \<exists>m\<in>set ?ms. m k \<noteq> None
                      then Some ((\<Sum>m\<leftarrow>?ms. counter_get m k) / real (length loader))
                      else None))"
    by simp
  with r show ?thesis by blast
qed

lemma average_scores_counter_update:
  "0 < n \<Longrightarrow> average_scores (counter_update c [k \<mapsto> v]) n =
     Inr (\<lambda>j. map_option (\<lambda>x. x / real n) (counter_update c [k \<mapsto> v] j))"
proof -
  assume n: "0 < n"
  have "counter_update c [k \<mapsto> v] k \<noteq> None" by (simp add: counter_update_def)
  then have "counter_update c [k \<mapsto> v] \<noteq> Map.empty" by (metis)
  with n show ?thesis by (simp add: average_scores_def)
qed

lemma inference_main_demo:
  "\<exists>final fs'. inference_main demo_save_args (\<lambda>j. Inr ()) (\<lambda>T s k sp w. Inr ())
      (\<lambda>u::unit. b4_endpoints 2) interpolate_shape cat_shape
      (\<lambda>(rng::nat) m sc x e n s p k. Inr ((x, x, [], ()), Suc rng))
      (\<lambda>dm c b. Inr dm) (\<lambda>gts maps. Inr [''auroc'' \<mapsto> real (length gts)])
      demo_inference_args [((), [''good''], [[]]), ((), [''broken''], [[], [], []])]
      demo_disk 0
    = Inr (final, [AddHparams final, Print final], fs') \<and> final ''auroc'' = Some 2"
  by (simp add: inference_main_def load_configs_def read_json_def demo_disk_def
        demo_inference_args_def dict_index_def dict_get_def demo_save_args_def write_file_def
        torch_load_def
        enumerate_eq_zip prepare_batch_b4 run_inference_step_def
        average_scores_counter_update)
     (simp add: counter_update_def counter_get_def)

lemma inference_loop_demo:
  "\<exists>sc rng'. inference_loop (\<lambda>u::unit. b4_endpoints 2) interpolate_shape cat_shape
      (\<lambda>(rng::nat) (m::unit) (s::unit) x e n s p (k::unit). Inr ((x, x, [], ()), Suc rng))
      (\<lambda>dm c b. Inr dm) (\<lambda>gts maps. Inr [''auroc'' \<mapsto> real (length gts)])
      () () () demo_inference_args
      [(0, (), [''good''], [[]]), (1, (), [''broken''], [[], [], []])] (Map.empty, 0)
    = Inr (sc, rng')"
  by (simp add: prepare_batch_b4 run_inference_step_def)

lemma validation_loop_demo:
  "validation_loop (\<lambda>(m::unit) (b::unit) (d::unit) t. Inr 1) () () demo_train_args 5
       [((), (), []), ((), (), [])] (0, Map.empty, []) =
     Inr (0, Map.empty, [AddScalars ''scores'' Map.empty 5, AddScalars ''scores'' Map.empty 5])"
  by (simp add: demo_train_args_def)

text \<open>
  C4, as amended. In inference the counter starts empty, every batch's metric mapping
  is added to it, and when the loop ends without an exception the division by
  \<open>len(test_loader)\<close> succeeds and gives, for every metric some batch reported, the
  sum of the batches' values over the number of batches; \<open>main\<close> reports (hyper-parameter
  report, print) only this averaged counter. In training the validation loop leaves the
  counter as it found it and hands it to \<open>writer.add_scalars\<close> once per test batch, before
  the division.
\<close>

theorem score_accumulator_sum_then_average:
  "(inference_loop ext interp cat gen to_map score model kind sched args bs (Map.empty, rng)
      = Inr (sc, rng') \<longrightarrow>
      length (batch_metrics ext interp cat gen to_map score model kind sched args bs rng)
        = length bs \<and>
      sc = foldl counter_update Map.empty
             (batch_metrics ext interp cat gen to_map score model kind sched args bs rng) \<and>
      (\<exists>final. average_scores sc (length bs) = Inr final \<and>
         (\<forall>k. final k =
            (if \<exists>m\<in>set (batch_metrics ext interp cat gen to_map score model kind sched args bs rng).
                  m k \<noteq> None
             then Some ((\<Sum>m\<leftarrow>batch_metrics ext interp cat gen to_map score model kind sched
                              args bs rng. counter_get m k) / real (length bs))
             else None)))) \<and>
   (inference_main save unet mk ext' interp' cat' gen' to_map' score' args' loader fs rng0
      = Inr (final', reports, fs') \<longrightarrow>
      reports = [AddHparams final', Print final'] \<and>
      (\<exists>model' kind' sched'.
         length (batch_metrics ext' interp' cat' gen' to_map' score' model' kind' sched' args'
                   (enumerate 0 loader) rng0) = length loader \<and>
         (\<forall>k. final' k =
            (if \<exists>m\<in>set (batch_metrics ext' interp' cat' gen' to_map' score' model' kind' sched'
                            args' (enumerate 0 loader) rng0). m k \<noteq> None
             then Some ((\<Sum>m\<leftarrow>batch_metrics ext' interp' cat' gen' to_map' score' model' kind'
                              sched' args' (enumerate 0 loader) rng0. counter_get m k)
                        / real (length loader))
             else None)))) \<and>
   (validation_loop vs vmodel ns targs epoch tloader (l, tsc, w) = Inr (l', tsc', w') \<longrightarrow>
      tsc' = tsc \<and> w' = w @ replicate (length tloader) (AddScalars ''scores'' tsc epoch))"
proof (intro conjI impI)
  assume "inference_loop ext interp cat gen to_map score model kind sched args bs (Map.empty, rng)
      = Inr (sc, rng')"
  from inference_loop_average[OF this]
  show "length (batch_metrics ext interp cat gen to_map score model kind sched args bs rng)
        = length bs"
    and "sc = foldl counter_update Map.empty
             (batch_metrics ext interp cat gen to_map score model kind sched args bs rng)"
    and "\<exists>final. average_scores sc (length bs) = Inr final \<and>
         (\<forall>k. final k =
            (if \<exists>m\<in>set (batch_metrics ext interp cat gen to_map score model kind sched args bs rng).
                  m k \<noteq> None
             then Some ((\<Sum>m\<leftarrow>batch_metrics ext interp cat gen to_map score model kind sched
                              args bs rng. counter_get m k) / real (length bs))
             else None))"
    by blast+
next
  assume "inference_main save unet mk ext' interp' cat' gen' to_map' score' args' loader fs rng0
      = Inr (final', reports, fs')"
  from inference_main_scores[OF this]
  show "reports = [AddHparams final', Print final']"
    and "\<exists>model' kind' sched'.
         length (batch_metrics ext' interp' cat' gen' to_map' score' model' kind' sched' args'
                   (enumerate 0 loader) rng0) = length loader \<and>
         (\<forall>k. final' k =
            (if \<exists>m\<in>set (batch_metrics ext' interp' cat' gen' to_map' score' model' kind' sched'
                            args' (enumerate 0 loader) rng0). m k \<noteq> None
             then Some ((\<Sum>m\<leftarrow>batch_metrics ext' interp' cat' gen' to_map' score' model' kind'
                              sched' args' (enumerate 0 loader) rng0. counter_get m k)
                        / real (length loader))
             else None))"
    by blast+
next
  assume "validation_loop vs vmodel ns targs epoch tloader (l, tsc, w) = Inr (l', tsc', w')"
  from validation_loop_scores[OF this]
  show "tsc' = tsc" and "w' = w @ replicate (length tloader) (AddScalars ''scores'' tsc epoch)"
    by blast+
qed

theorem score_accumulator_sum_then_average_witness:
  "(\<exists>sc rng'. inference_loop (\<lambda>u::unit. b4_endpoints 2) interpolate_shape cat_shape
      (\<lambda>(rng::nat) (m::unit) (s::unit) x e n s p (k::unit). Inr ((x, x, [], ()), Suc rng))
      (\<lambda>dm c b. Inr dm) (\<lambda>gts maps. Inr [''auroc'' \<mapsto> real (length gts)])
      () () () demo_inference_args
      [(0, (), [''good''], [[]]), (1, (), [''broken''], [[], [], []])] (Map.empty, 0)
      = Inr (sc, rng') \<and> (\<exists>final. average_scores sc 2 = Inr final)) \<and>
   (\<exists>final fs'. inference_main demo_save_args (\<lambda>j. Inr ()) (\<lambda>T s k sp w. Inr ())
      (\<lambda>u::unit. b4_endpoints 2) interpolate_shape cat_shape
      (\<lambda>(rng::nat) m sc x e n s p k. Inr ((x, x, [], ()), Suc rng))
      (\<lambda>dm c b. Inr dm) (\<lambda>gts maps. Inr [''auroc'' \<mapsto> real (length gts)])
      demo_inference_args [((), [''good''], [[]]), ((), [''broken''], [[], [], []])]
      demo_disk 0
      = Inr (final, [AddHparams final, Print final], fs') \<and> final ''auroc'' = Some 2) \<and>
   (\<exists>l sc w. validation_loop (\<lambda>(m::unit) (b::unit) (d::unit) t. Inr 1) () () demo_train_args 5
       [((), (), []), ((), (), [])] (0, Map.empty, []) = Inr (l, sc, w) \<and>
       sc = Map.empty \<and> length w = 2)"
proof (intro conjI)
  obtain sc rng' where
    e: "inference_loop (\<lambda>u::unit. b4_endpoints 2) interpolate_shape cat_shape
      (\<lambda>(rng::nat) (m::unit) (s::unit) x e n s p (k::unit). Inr ((x, x, [], ()), Suc rng))
      (\<lambda>dm c b. Inr dm) (\<lambda>gts maps. Inr [''auroc'' \<mapsto> real (length gts)])
      () () () demo_inference_args
      [(0, (), [''good''], [[]]), (1, (), [''broken''], [[], [], []])] (Map.empty, 0)
      = Inr (sc, rng')"
    using inference_loop_demo by blast
  from score_accumulator_sum_then_average [THEN conjunct1, rule_format, OF e,
      THEN conjunct2, THEN conjunct2]
  obtain final where
    "average_scores sc
       (length [(0::nat, (), [''good''], [[]::image]), (1, (), [''broken''], [[], [], []])])
     = Inr final"
    by (elim exE conjE)
  then have "\<exists>final. average_scores sc 2 = Inr final"
    by (auto simp: numeral_2_eq_2)
  with e show "\<exists>sc rng'. inference_loop (\<lambda>u::unit. b4_endpoints 2) interpolate_shape cat_shape
      (\<lambda>(rng::nat) (m::unit) (s::unit) x e n s p (k::unit). Inr ((x, x, [], ()), Suc rng))
      (\<lambda>dm c b. Inr dm) (\<lambda>gts maps. Inr [''auroc'' \<mapsto> real (length gts)])
      () () () demo_inference_args
      [(0, (), [''good''], [[]]), (1, (), [''broken''], [[], [], []])] (Map.empty, 0)
      = Inr (sc, rng') \<and> (\<exists>final. average_scores sc 2 = Inr final)"
    by blast
next
  obtain final fs' where
    e: "inference_main demo_save_args (\<lambda>j. Inr ()) (\<lambda>T s k sp w. Inr ())
      (\<lambda>u::unit. b4_endpoints 2) interpolate_shape cat_shape
      (\<lambda>(rng::nat) m sc x e n s p k. Inr ((x, x, [], ()), Suc rng))
      (\<lambda>dm c b. Inr dm) (\<lambda>gts maps. Inr [''auroc'' \<mapsto> real (length gts)])
      demo_inference_args [((), [''good''], [[]]), ((), [''broken''], [[], [], []])]
      demo_disk 0
      = Inr (final, [AddHparams final, Print final], fs')"
    and f: "final ''auroc'' = Some 2"
    using inference_main_demo by blast
  from score_accumulator_sum_then_average [THEN conjunct2, THEN conjunct1, rule_format, OF e]
  have "[AddHparams final, Print final] = [AddHparams final, Print final]" by simp
  with e f show "\<exists>final fs'. inference_main demo_save_args (\<lambda>j. Inr ()) (\<lambda>T s k sp w. Inr ())
      (\<lambda>u::unit. b4_endpoints 2) interpolate_shape cat_shape
      (\<lambda>(rng::nat) m sc x e n s p k. Inr ((x, x, [], ()), Suc rng))
      (\<lambda>dm c b. Inr dm) (\<lambda>gts maps. Inr [''auroc'' \<mapsto> real (length gts)])
      demo_inference_args [((), [''good''], [[]]), ((), [''broken''], [[], [], []])]
      demo_disk 0
      = Inr (final, [AddHparams final, Print final], fs') \<and> final ''auroc'' = Some 2"
    by blast
next
  obtain l sc w where
    e: "validation_loop (\<lambda>(m::unit) (b::unit) (d::unit) t. Inr 1) () () demo_train_args 5
       [((), (), []), ((), (), [])] (0, Map.empty, []) = Inr (l, sc, w)"
    using validation_loop_demo by blast
  from score_accumulator_sum_then_average [THEN conjunct2, THEN conjunct2, rule_format, OF e]
  have "sc = Map.empty" and "length w = 2" by simp_all
  with e show "\<exists>l sc w. validation_loop (\<lambda>(m::unit) (b::unit) (d::unit) t. Inr 1) () ()
       demo_train_args 5 [((), (), []), ((), (), [])] (0, Map.empty, []) = Inr (l, sc, w) \<and>
       sc = Map.empty \<and> length w = 2"
    by blast
qed

text \<open>
  The claim as stated fails on the training path: with two test batches and the
  validation loss switched on, the validation phase of epoch 7 hands the counter to
  \<open>writer.add_scalars\<close> twice before the division, and no batch adds a mapping to it: it
  is empty in both reports and after the division.
\<close>

theorem score_accumulator_training_counterexample:
  "validation_phase (\<lambda>(m::unit) (b::unit) (d::unit) t. Inr 1) () ()
       (demo_train_args\<lparr>calc_val_loss := True\<rparr>) 7 3
       [((), ''good'', [[[1]]]), ((), ''broken'', [[[0]]])] [] =
     Inr (2, Map.empty,
          [AddScalars ''scores'' Map.empty 7, AddScalars ''scores'' Map.empty 7,
           SetPostfix Map.empty])"
  by (simp add: validation_phase_def demo_train_args_def average_scores_def)

section \<open>The persisted configuration\<close>

lemma write_file_other:
  "p \<noteq> q \<Longrightarrow> fst (write_file q v d) p = fst d p \<and>
     count_list (snd (write_file q v d)) p = count_list (snd d) p"
  by (simp add: write_file_def)

lemma write_file_same:
  "fst (write_file p v d) p = Some v \<and>
     count_list (snd (write_file p v d)) p = count_list (snd d) p + 1"
  by (simp add: write_file_def)

lemma run_epoch_keeps:
  assumes "run_epoch ext interp cat ts vs str ns args dir trl tel epoch (model, fs, w) =
             Inr (l, model', fs', w')"
    and "\<forall>x. p \<noteq> dir @ ''/epoch_'' @ x @ ''.pt''"
  shows "fst fs' p = fst fs p \<and> count_list (snd fs') p = count_list (snd fs) p"
  using assms unfolding run_epoch_def
  by (auto split: sum.splits if_splits prod.splits simp: write_file_def)

lemma train_epochs_keeps:
  assumes "train_epochs ext interp cat ts vs str ns args dir trl tel es (l0, model, fs, w) =
             Inr (l, model', fs', w')"
    and "\<forall>x. p \<noteq> dir @ ''/epoch_'' @ x @ ''.pt''"
  shows "fst fs' p = fst fs p \<and> count_list (snd fs') p = count_list (snd fs) p"
  using assms
proof (induction es arbitrary: l0 model fs w)
  case Nil
  then show ?case by simp
next
  case (Cons e es)
  from Cons.prems(1) obtain l1 m1 fs1 w1 where
    r: "run_epoch ext interp cat ts vs str ns args dir trl tel e (model, fs, w) =
          Inr (l1, m1, fs1, w1)"
    and t: "train_epochs ext interp cat ts vs str ns args dir trl tel es (Some l1, m1, fs1, w1) =
          Inr (l, model', fs', w')"
    by (auto split: sum.splits)
  from run_epoch_keeps[OF r Cons.prems(2)] Cons.IH[OF t Cons.prems(2)] show ?case by simp
qed

lemma config_path_kept:
  assumes "train_epochs ext interp cat ts vs str ns args dir trl tel es (l0, model, fs, w) =
             Inr (l, model', fs', w')"
    and "p = dir @ ''/model_config.json'' \<or> p = dir @ ''/train_arg_config.json''"
  shows "fst fs' p = fst fs p \<and> count_list (snd fs') p = count_list (snd fs) p"
  using assms(2) by (intro train_epochs_keeps[OF assms(1)]) auto

lemma train_setup_configs:
  assumes H: "\<forall>obj dir name d d'. save obj dir name d = Inr d' \<longrightarrow>
                d' = write_file (dir @ ''/'' @ name @ ''.json'') (JsonFile obj) d"
    and s: "train_setup save unet ddpm ddim args stamp fs = Inr (model, ns, ins, fs2)"
  shows "\<exists>margs. model_args args = Inr margs \<and> unet margs = Inr model \<and>
           fs2 = write_file (run_directory args stamp @ ''/model_config.json'') (JsonFile margs)
                   (write_file (run_directory args stamp @ ''/train_arg_config.json'')
                      (JsonFile (train_args_json args)) fs)"
proof -
  from s obtain margs fs1 where
    m: "model_args args = Inr margs" and u: "unet margs = Inr model"
    and s1: "save (train_args_json args) (run_directory args stamp) ''train_arg_config'' fs
               = Inr fs1"
    and s2: "save margs (run_directory args stamp) ''model_config'' fs1 = Inr fs2"
    unfolding train_setup_def by (auto split: sum.splits)
  from H[rule_format, OF s1]
  have "fs1 = write_file (run_directory args stamp @ ''/train_arg_config.json'')
                          (JsonFile (train_args_json args)) fs"
    by simp
  moreover from H[rule_format, OF s2]
  have "fs2 = write_file (run_directory args stamp @ ''/model_config.json'')
                          (JsonFile margs) fs1"
    by simp
  ultimately show ?thesis using m u by blast
qed

lemma train_setup_files:
  assumes H: "\<forall>obj dir name d d'. save obj dir name d = Inr d' \<longrightarrow>
                d' = write_file (dir @ ''/'' @ name @ ''.json'') (JsonFile obj) d"
    and s: "train_setup save unet ddpm ddim args stamp fs = Inr (model, ns, ins, fs2)"
  shows "\<exists>margs. model_args args = Inr margs \<and> unet margs = Inr model \<and>
           fst fs2 (run_directory args stamp @ ''/model_config.json'') = Some (JsonFile margs) \<and>
           fst fs2 (run_directory args stamp @ ''/train_arg_config.json'')
             = Some (JsonFile (train_args_json args)) \<and>
           snd fs2 = snd fs @ [run_directory args stamp @ ''/train_arg_config.json'',
                               run_directory args stamp @ ''/model_config.json'']"
proof -
  from train_setup_configs[OF H s] obtain margs where
    m: "model_args args = Inr margs" and u: "unet margs = Inr model"
    and f: "fs2 = write_file (run_directory args stamp @ ''/model_config.json'') (JsonFile margs)
                   (write_file (run_directory args stamp @ ''/train_arg_config.json'')
                      (JsonFile (train_args_json args)) fs)"
    by blast
  show ?thesis
    by (intro exI[of _ margs] conjI m u) (simp_all add: f write_file_def)
qed

lemma train_main_configs:
  assumes H: "\<forall>obj dir name d d'. save obj dir name d = Inr d' \<longrightarrow>
                d' = write_file (dir @ ''/'' @ name @ ''.json'') (JsonFile obj) d"
    and t: "train_main save unet ddpm ddim ext interp cat ts vs str args stamp trl tel fs =
             Inr (fs', written)"
  shows "\<exists>margs model. model_args args = Inr margs \<and> unet margs = Inr model \<and>
           fst fs' (run_directory args stamp @ ''/model_config.json'') = Some (JsonFile margs) \<and>
           fst fs' (run_directory args stamp @ ''/train_arg_config.json'')
             = Some (JsonFile (train_args_json args)) \<and>
           count_list (snd fs') (run_directory args stamp @ ''/model_config.json'')
             = count_list (snd fs) (run_directory args stamp @ ''/model_config.json'') + 1 \<and>
           count_list (snd fs') (run_directory args stamp @ ''/train_arg_config.json'')
             = count_list (snd fs) (run_directory args stamp @ ''/train_arg_config.json'') + 1"
proof -
  let ?D = "run_directory args stamp"
  from t obtain model nsch isch fs2 l model' fs3 where
    s: "train_setup save unet ddpm ddim args stamp fs = Inr (model, nsch, isch, fs2)"
    and e: "train_epochs ext interp cat ts vs str nsch args ?D trl tel [0..<nat (epochs args)]
              (None, model, fs2, []) = Inr (Some l, model', fs3, written)"
    and f: "fs' = write_file (?D @ ''/epoch_'' @ str (epochs args) @ ''.pt'') StateDict fs3"
    unfolding train_main_def
    by (auto split: sum.splits option.splits prod.splits)
  from train_setup_configs[OF H s] obtain margs where
    m: "model_args args = Inr margs" and u: "unet margs = Inr model"
    and f2: "fs2 = write_file (?D @ ''/model_config.json'') (JsonFile margs)
                   (write_file (?D @ ''/train_arg_config.json'')
                      (JsonFile (train_args_json args)) fs)"
    by blast
  have k1: "fst fs3 (?D @ ''/model_config.json'') = fst fs2 (?D @ ''/model_config.json'') \<and>
            count_list (snd fs3) (?D @ ''/model_config.json'')
              = count_list (snd fs2) (?D @ ''/model_config.json'')"
    by (rule config_path_kept[OF e]) simp
  have k2: "fst fs3 (?D @ ''/train_arg_config.json'') = fst fs2 (?D @ ''/train_arg_config.json'') \<and>
            count_list (snd fs3) (?D @ ''/train_arg_config.json'')
              = count_list (snd fs2) (?D @ ''/train_arg_config.json'')"
    by (rule config_path_kept[OF e]) simp
  from k1 k2 show ?thesis
    unfolding f f2 by (intro exI[of _ margs] exI[of _ model] conjI m u) (simp_all add: write_file_def)
qed

lemma model_args_sample_size:
  "model_args targs = Inr margs \<Longrightarrow> dict_index margs ''sample_size'' = Inr (JInt (resolution targs))"
  by (auto simp: model_args_def dict_index_def Let_def split: sum.splits)

lemma inference_reads_configs:
  assumes mc: "fst fs (InferenceArgs.checkpoint_dir ia @ ''/model_config.json'')
                 = Some (JsonFile mc)"
    and tc: "fst fs (InferenceArgs.checkpoint_dir ia @ ''/train_arg_config.json'')
                 = Some (JsonFile (JObj kvs))"
  shows "inference_main save U mk ext interp cat gen to_map score ia loader fs rng =
     (case save (inference_args_json ia) (InferenceArgs.img_dir ia) ''inference_args'' fs of
        Inl e \<Rightarrow> Inl e
      | Inr fs1 \<Rightarrow>
     (case (if patch_imgs ia then Inr JNull else dict_index mc ''sample_size'') of
        Inl e \<Rightarrow> Inl e
      | Inr _ \<Rightarrow>
     (case U mc of
        Inl e \<Rightarrow> Inl e
      | Inr net \<Rightarrow>
     (case torch_load (fst fs1) (InferenceArgs.checkpoint_dir ia @ ''/'' @ checkpoint_name ia) of
        Inl e \<Rightarrow> Inl e
      | Inr _ \<Rightarrow>
     (case mk (InferenceArgs.train_steps ia) (start_at_timestep ia)
             (InferenceArgs.beta_schedule ia) ''leading'' (InferenceArgs.reconstruction_weight ia) of
        Inl e \<Rightarrow> Inl e
      | Inr sched \<Rightarrow>
     (case inference_loop ext interp cat gen to_map score net
             (case map_of kvs ''noise_kind'' of None \<Rightarrow> JStr ''gaussian'' | Some v \<Rightarrow> v)
             sched ia (enumerate 0 loader) (Map.empty, rng) of
        Inl e \<Rightarrow> Inl e
      | Inr (eval_scores, rng') \<Rightarrow>
     (case average_scores eval_scores (length loader) of
        Inl e \<Rightarrow> Inl e
      | Inr final \<Rightarrow>
     (case dict_index mc ''sample_size'' of
        Inl e \<Rightarrow> Inl e
      | Inr _ \<Rightarrow> Inr (final, [AddHparams final, Print final], fs1)))))))))"
proof -
  have lc: "load_configs save ia fs =
      (case save (inference_args_json ia) (InferenceArgs.img_dir ia) ''inference_args'' fs of
         Inl e \<Rightarrow> Inl e
       | Inr fs1 \<Rightarrow> Inr (mc, JObj kvs, fs1))"
    by (simp add: load_configs_def read_json_def mc tc)
  have dg: "dict_get (JObj kvs) ''noise_kind'' (JStr ''gaussian'') =
      Inr (case map_of kvs ''noise_kind'' of None \<Rightarrow> JStr ''gaussian'' | Some v \<Rightarrow> v)"
    by (simp add: dict_get_def split: option.splits)
  show ?thesis
    unfolding inference_main_def lc
    by (cases "save (inference_args_json ia) (InferenceArgs.img_dir ia) ''inference_args'' fs")
       (simp_all add: dg cong: sum.case_cong)
qed

lemma train_args_noise_kind:
  "\<exists>kvs. train_args_json targs = JObj kvs \<and>
     map_of kvs ''noise_kind'' = Some (JStr (noise_kind targs))"
  by (simp add: train_args_json_def)

lemma inference_after_training:
  assumes mc: "fst fs (InferenceArgs.checkpoint_dir ia @ ''/model_config.json'')
                 = Some (JsonFile margs)"
    and tc: "fst fs (InferenceArgs.checkpoint_dir ia @ ''/train_arg_config.json'')
                 = Some (JsonFile (train_args_json targs))"
    and ma: "model_args targs = Inr margs"
  shows "inference_main save U mk ext interp cat gen to_map score ia loader fs rng =
     (case save (inference_args_json ia) (InferenceArgs.img_dir ia) ''inference_args'' fs of
        Inl e \<Rightarrow> Inl e
      | Inr fs1 \<Rightarrow>
     (case U margs of
        Inl e \<Rightarrow> Inl e
      | Inr net \<Rightarrow>
     (case torch_load (fst fs1) (InferenceArgs.checkpoint_dir ia @ ''/'' @ checkpoint_name ia) of
        Inl e \<Rightarrow> Inl e
      | Inr _ \<Rightarrow>
     (case mk (InferenceArgs.train_steps ia) (start_at_timestep ia)
             (InferenceArgs.beta_schedule ia) ''leading'' (InferenceArgs.reconstruction_weight ia) of
        Inl e \<Rightarrow> Inl e
      | Inr sched \<Rightarrow>
     (case inference_loop ext interp cat gen to_map score net (JStr (noise_kind targs))
             sched ia (enumerate 0 loader) (Map.empty, rng) of
        Inl e \<Rightarrow> Inl e
      | Inr (eval_scores, rng') \<Rightarrow>
     (case average_scores eval_scores (length loader) of
        Inl e \<Rightarrow> Inl e
      | Inr final \<Rightarrow> Inr (final, [AddHparams final, Print final], fs1)))))))"
proof -
  from train_args_noise_kind obtain kvs where
    k: "train_args_json targs = JObj kvs"
    and n: "map_of kvs ''noise_kind'' = Some (JStr (noise_kind targs))"
    by blast
  show ?thesis
    unfolding inference_reads_configs[OF mc tc[unfolded k]]
    by (simp add: n model_args_sample_size[OF ma] cong: sum.case_cong)
qed

text \<open>
  C7. \<open>save_args\<close> is taken to write the dictionary it is given as the JSON file
  \<^verbatim>\<open>{directory}/{name}.json\<close> and nothing else, whenever it returns. Then:
  the set-up of a training run builds the network from \<open>model_args\<close> and writes
  \<open>train_arg_config.json\<close> and \<open>model_config.json\<close> into the run directory, in this
  order, as its only two writes, before the first epoch; no sequence of epochs touches
  either file; a run that completes leaves both files written exactly once. An
  inference run whose \<open>checkpoint_dir\<close> is that directory applies the \<open>UNet2DModel\<close>
  constructor to the model arguments training wrote and runs its batches with the noise
  kind of the training arguments. In general, inference on a disk that holds the two
  files builds the network from the content of \<open>model_config.json\<close> and hands the
  sampler the \<open>noise_kind\<close> entry of \<open>train_arg_config.json\<close>, or "gaussian" when the
  dictionary has no such key.
\<close>

theorem persisted_configuration_roundtrip:
  assumes H: "\<forall>obj dir name d d'. save obj dir name d = Inr d' \<longrightarrow>
                d' = write_file (dir @ ''/'' @ name @ ''.json'') (JsonFile obj) d"
  shows
  "(train_setup save unet ddpm ddim args stamp fs = Inr (model, ns, ins, fs2) \<longrightarrow>
      (\<exists>margs. model_args args = Inr margs \<and> unet margs = Inr model \<and>
         fst fs2 (run_directory args stamp @ ''/model_config.json'') = Some (JsonFile margs) \<and>
         fst fs2 (run_directory args stamp @ ''/train_arg_config.json'')
           = Some (JsonFile (train_args_json args)) \<and>
         snd fs2 = snd fs @ [run_directory args stamp @ ''/train_arg_config.json'',
                             run_directory args stamp @ ''/model_config.json''])) \<and>
   (train_epochs ext interp cat ts vs str ns args (run_directory args stamp) trl tel es
        (l0, model, fs2, w0) = Inr (l, model', fs3, w) \<and>
      (p = run_directory args stamp @ ''/model_config.json'' \<or>
       p = run_directory args stamp @ ''/train_arg_config.json'') \<longrightarrow>
      fst fs3 p = fst fs2 p \<and> count_list (snd fs3) p = count_list (snd fs2) p) \<and>
   (train_main save unet ddpm ddim ext interp cat ts vs str args stamp trl tel fs
      = Inr (fs', written) \<longrightarrow>
      (\<exists>margs net0. model_args args = Inr margs \<and> unet margs = Inr net0 \<and>
         fst fs' (run_directory args stamp @ ''/model_config.json'') = Some (JsonFile margs) \<and>
         fst fs' (run_directory args stamp @ ''/train_arg_config.json'')
           = Some (JsonFile (train_args_json args)) \<and>
         count_list (snd fs') (run_directory args stamp @ ''/model_config.json'')
           = count_list (snd fs) (run_directory args stamp @ ''/model_config.json'') + 1 \<and>
         count_list (snd fs') (run_directory args stamp @ ''/train_arg_config.json'')
           = count_list (snd fs) (run_directory args stamp @ ''/train_arg_config.json'') + 1 \<and>
         (\<forall>ia. InferenceArgs.checkpoint_dir ia = run_directory args stamp \<longrightarrow>
            inference_main save' U mk ext' interp' cat' gen to_map score ia loader fs' rng =
              (case save' (inference_args_json ia) (InferenceArgs.img_dir ia) ''inference_args''
                      fs' of
                 Inl e \<Rightarrow> Inl e
               | Inr fs1 \<Rightarrow>
              (case U margs of
                 Inl e \<Rightarrow> Inl e
               | Inr net \<Rightarrow>
              (case torch_load (fst fs1)
                      (InferenceArgs.checkpoint_dir ia @ ''/'' @ checkpoint_name ia) of
                 Inl e \<Rightarrow> Inl e
               | Inr _ \<Rightarrow>
              (case mk (InferenceArgs.train_steps ia) (start_at_timestep ia)
                      (InferenceArgs.beta_schedule ia) ''leading''
                      (InferenceArgs.reconstruction_weight ia) of
                 Inl e \<Rightarrow> Inl e
               | Inr sched \<Rightarrow>
              (case inference_loop ext' interp' cat' gen to_map score net (JStr (noise_kind args))
                      sched ia (enumerate 0 loader) (Map.empty, rng) of
                 Inl e \<Rightarrow> Inl e
               | Inr (eval_scores, rng') \<Rightarrow>
              (case average_scores eval_scores (length loader) of
                 Inl e \<Rightarrow> Inl e
               | Inr final \<Rightarrow> Inr (final, [AddHparams final, Print final], fs1)))))))))) \<and>
   (fst fsI (InferenceArgs.checkpoint_dir ia' @ ''/model_config.json'') = Some (JsonFile mc) \<and>
    fst fsI (InferenceArgs.checkpoint_dir ia' @ ''/train_arg_config.json'')
      = Some (JsonFile (JObj kvs)) \<longrightarrow>
      inference_main save' U mk ext' interp' cat' gen to_map score ia' loader fsI rng =
        (case save' (inference_args_json ia') (InferenceArgs.img_dir ia') ''inference_args''
                fsI of
           Inl e \<Rightarrow> Inl e
         | Inr fs1 \<Rightarrow>
        (case (if patch_imgs ia' then Inr JNull else dict_index mc ''sample_size'') of
           Inl e \<Rightarrow> Inl e
         | Inr _ \<Rightarrow>
        (case U mc of
           Inl e \<Rightarrow> Inl e
         | Inr net \<Rightarrow>
        (case torch_load (fst fs1)
                (InferenceArgs.checkpoint_dir ia' @ ''/'' @ checkpoint_name ia') of
           Inl e \<Rightarrow> Inl e
         | Inr _ \<Rightarrow>
        (case mk (InferenceArgs.train_steps ia') (start_at_timestep ia')
                (InferenceArgs.beta_schedule ia') ''leading''
                (InferenceArgs.reconstruction_weight ia') of
           Inl e \<Rightarrow> Inl e
         | Inr sched \<Rightarrow>
        (case inference_loop ext' interp' cat' gen to_map score net
                (case map_of kvs ''noise_kind'' of None \<Rightarrow> JStr ''gaussian'' | Some v \<Rightarrow> v)
                sched ia' (enumerate 0 loader) (Map.empty, rng) of
           Inl e \<Rightarrow> Inl e
         | Inr (eval_scores, rng') \<Rightarrow>
        (case average_scores eval_scores (length loader) of
           Inl e \<Rightarrow> Inl e
         | Inr final \<Rightarrow>
        (case dict_index mc ''sample_size'' of
           Inl e \<Rightarrow> Inl e
         | Inr _ \<Rightarrow> Inr (final, [AddHparams final, Print final], fs1))))))))))"
proof (intro conjI impI)
  assume "train_setup save unet ddpm ddim args stamp fs = Inr (model, ns, ins, fs2)"
  then show "\<exists>margs. model_args args = Inr margs \<and> unet margs = Inr model \<and>
         fst fs2 (run_directory args stamp @ ''/model_config.json'') = Some (JsonFile margs) \<and>
         fst fs2 (run_directory args stamp @ ''/train_arg_config.json'')
           = Some (JsonFile (train_args_json args)) \<and>
         snd fs2 = snd fs @ [run_directory args stamp @ ''/train_arg_config.json'',
                             run_directory args stamp @ ''/model_config.json'']"
    by (rule train_setup_files[OF H])
next
  assume a: "train_epochs ext interp cat ts vs str ns args (run_directory args stamp) trl tel es
        (l0, model, fs2, w0) = Inr (l, model', fs3, w) \<and>
      (p = run_directory args stamp @ ''/model_config.json'' \<or>
       p = run_directory args stamp @ ''/train_arg_config.json'')"
  from config_path_kept[OF a[THEN conjunct1] a[THEN conjunct2]]
  show "fst fs3 p = fst fs2 p" and "count_list (snd fs3) p = count_list (snd fs2) p"
    by simp_all
next
  assume t: "train_main save unet ddpm ddim ext interp cat ts vs str args stamp trl tel fs
      = Inr (fs', written)"
  from train_main_configs[OF H t] obtain margs net0 where
    m: "model_args args = Inr margs" and u: "unet margs = Inr net0"
    and f1: "fst fs' (run_directory args stamp @ ''/model_config.json'') = Some (JsonFile margs)"
    and f2: "fst fs' (run_directory args stamp @ ''/train_arg_config.json'')
               = Some (JsonFile (train_args_json args))"
    and c1: "count_list (snd fs') (run_directory args stamp @ ''/model_config.json'')
               = count_list (snd fs) (run_directory args stamp @ ''/model_config.json'') + 1"
    and c2: "count_list (snd fs') (run_directory args stamp @ ''/train_arg_config.json'')
               = count_list (snd fs) (run_directory args stamp @ ''/train_arg_config.json'') + 1"
    by (elim exE conjE)
  show "\<exists>margs net0. model_args args = Inr margs \<and> unet margs = Inr net0 \<and>
         fst fs' (run_directory args stamp @ ''/model_config.json'') = Some (JsonFile margs) \<and>
         fst fs' (run_directory args stamp @ ''/train_arg_config.json'')
           = Some (JsonFile (train_args_json args)) \<and>
         count_list (snd fs') (run_directory args stamp @ ''/model_config.json'')
           = count_list (snd fs) (run_directory args stamp @ ''/model_config.json'') + 1 \<and>
         count_list (snd fs') (run_directory args stamp @ ''/train_arg_config.json'')
           = count_list (snd fs) (run_directory args stamp @ ''/train_arg_config.json'') + 1 \<and>
         (\<forall>ia. InferenceArgs.checkpoint_dir ia = run_directory args stamp \<longrightarrow>
            inference_main save' U mk ext' interp' cat' gen to_map score ia loader fs' rng =
              (case save' (inference_args_json ia) (InferenceArgs.img_dir ia) ''inference_args''
                      fs' of
                 Inl e \<Rightarrow> Inl e
               | Inr fs1 \<Rightarrow>
              (case U margs of
                 Inl e \<Rightarrow> Inl e
               | Inr net \<Rightarrow>
              (case torch_load (fst fs1)
                      (InferenceArgs.checkpoint_dir ia @ ''/'' @ checkpoint_name ia) of
                 Inl e \<Rightarrow> Inl e
               | Inr _ \<Rightarrow>
              (case mk (InferenceArgs.train_steps ia) (start_at_timestep ia)
                      (InferenceArgs.beta_schedule ia) ''leading''
                      (InferenceArgs.reconstruction_weight ia) of
                 Inl e \<Rightarrow> Inl e
               | Inr sched \<Rightarrow>
              (case inference_loop ext' interp' cat' gen to_map score net (JStr (noise_kind args))
                      sched ia (enumerate 0 loader) (Map.empty, rng) of
                 Inl e \<Rightarrow> Inl e
               | Inr (eval_scores, rng') \<Rightarrow>
              (case average_scores eval_scores (length loader) of
                 Inl e \<Rightarrow> Inl e
               | Inr final \<Rightarrow> Inr (final, [AddHparams final, Print final], fs1))))))))"
  proof (intro exI[of _ margs] exI[of _ net0] conjI allI impI)
    fix ia :: InferenceArgs
    assume cd: "InferenceArgs.checkpoint_dir ia = run_directory args stamp"
    show "inference_main save' U mk ext' interp' cat' gen to_map score ia loader fs' rng =
              (case save' (inference_args_json ia) (InferenceArgs.img_dir ia) ''inference_args''
                      fs' of
                 Inl e \<Rightarrow> Inl e
               | Inr fs1 \<Rightarrow>
              (case U margs of
                 Inl e \<Rightarrow> Inl e
               | Inr net \<Rightarrow>
              (case torch_load (fst fs1)
                      (InferenceArgs.checkpoint_dir ia @ ''/'' @ checkpoint_name ia) of
                 Inl e \<Rightarrow> Inl e
               | Inr _ \<Rightarrow>
              (case mk (InferenceArgs.train_steps ia) (start_at_timestep ia)
                      (InferenceArgs.beta_schedule ia) ''leading''
                      (InferenceArgs.reconstruction_weight ia) of
                 Inl e \<Rightarrow> Inl e
               | Inr sched \<Rightarrow>
              (case inference_loop ext' interp' cat' gen to_map score net (JStr (noise_kind args))
                      sched ia (enumerate 0 loader) (Map.empty, rng) of
                 Inl e \<Rightarrow> Inl e
               | Inr (eval_scores, rng') \<Rightarrow>
              (case average_scores eval_scores (length loader) of
                 Inl e \<Rightarrow> Inl e
               | Inr final \<Rightarrow> Inr (final, [AddHparams final, Print final], fs1)))))))"
      by (rule inference_after_training[OF f1[folded cd] f2[folded cd] m])
  qed (rule m u f1 f2 c1 c2)+
next
  assume a: "fst fsI (InferenceArgs.checkpoint_dir ia' @ ''/model_config.json'')
               = Some (JsonFile mc) \<and>
    fst fsI (InferenceArgs.checkpoint_dir ia' @ ''/train_arg_config.json'')
      = Some (JsonFile (JObj kvs))"
  show "inference_main save' U mk ext' interp' cat' gen to_map score ia' loader fsI rng =
        (case save' (inference_args_json ia') (InferenceArgs.img_dir ia') ''inference_args''
                fsI of
           Inl e \<Rightarrow> Inl e
         | Inr fs1 \<Rightarrow>
        (case (if patch_imgs ia' then Inr JNull else dict_index mc ''sample_size'') of
           Inl e \<Rightarrow> Inl e
         | Inr _ \<Rightarrow>
        (case U mc of
           Inl e \<Rightarrow> Inl e
         | Inr net \<Rightarrow>
        (case torch_load (fst fs1)
                (InferenceArgs.checkpoint_dir ia' @ ''/'' @ checkpoint_name ia') of
           Inl e \<Rightarrow> Inl e
         | Inr _ \<Rightarrow>
        (case mk (InferenceArgs.train_steps ia') (start_at_timestep ia')
                (InferenceArgs.beta_schedule ia') ''leading''
                (InferenceArgs.reconstruction_weight ia') of
           Inl e \<Rightarrow> Inl e
         | Inr sched \<Rightarrow>
        (case inference_loop ext' interp' cat' gen to_map score net
                (case map_of kvs ''noise_kind'' of None \<Rightarrow> JStr ''gaussian'' | Some v \<Rightarrow> v)
                sched ia' (enumerate 0 loader) (Map.empty, rng) of
           Inl e \<Rightarrow> Inl e
         | Inr (eval_scores, rng') \<Rightarrow>
        (case average_scores eval_scores (length loader) of
           Inl e \<Rightarrow> Inl e
         | Inr final \<Rightarrow>
        (case dict_index mc ''sample_size'' of
           Inl e \<Rightarrow> Inl e
         | Inr _ \<Rightarrow> Inr (final, [AddHparams final, Print final], fs1)))))))))"
    by (rule inference_reads_configs[OF a[THEN conjunct1] a[THEN conjunct2]])
qed

lemma demo_save_args_writes:
  "\<forall>obj dir name d d'. demo_save_args obj dir name d = Inr d' \<longrightarrow>
     d' = write_file (dir @ ''/'' @ name @ ''.json'') (JsonFile obj) d"
  by (auto simp: demo_save_args_def)

lemma train_main_demo_files:
  "\<exists>fs' written. train_main demo_save_args (\<lambda>j. Inr ()) (\<lambda>T k. Inr ()) (\<lambda>T s k sp w. Inr ())
        (\<lambda>u::unit. b4_endpoints 2) interpolate_shape cat_shape
        (\<lambda>m f d T k. Inr (1, ())) (\<lambda>m b d T. Inr 1) (\<lambda>n. ''n'')
        (demo_train_args\<lparr>noise_kind := ''simplex''\<rparr>) ''1700000000.'' [((), ())] [((), (), [])]
        (Map.empty, []) = Inr (fs', written) \<and>
        fst fs' ''checkpoints/run_1700000000./epoch_n.pt'' = Some StateDict"
  by (simp add: train_main_def train_setup_def model_args_def channel_multiplier_def
       demo_train_args_def demo_save_args_def write_file_def run_epoch_def validation_phase_def
       average_scores_def prepare_batch_b4 run_directory_def Let_def)

theorem persisted_configuration_roundtrip_witness:
  "(\<exists>fs' written final d.
      train_main demo_save_args (\<lambda>j. Inr ()) (\<lambda>T k. Inr ()) (\<lambda>T s k sp w. Inr ())
        (\<lambda>u::unit. b4_endpoints 2) interpolate_shape cat_shape
        (\<lambda>m f d T k. Inr (1, ())) (\<lambda>m b d T. Inr 1) (\<lambda>n. ''n'')
        (demo_train_args\<lparr>noise_kind := ''simplex''\<rparr>) ''1700000000.'' [((), ())] [((), (), [])]
        (Map.empty, []) = Inr (fs', written) \<and>
      inference_main demo_save_args (\<lambda>j. Inr ()) (\<lambda>T s k sp w. Inr ())
        (\<lambda>u::unit. b4_endpoints 2) interpolate_shape cat_shape
        (\<lambda>(rng::nat) m sc x e n s p k.
           if k = JStr ''simplex'' then Inr ((x, x, [], ()), Suc rng) else Inl ValueError)
        (\<lambda>dm c b. Inr dm) (\<lambda>gts maps. Inr [''auroc'' \<mapsto> real (length gts)])
        (demo_inference_args\<lparr>InferenceArgs.checkpoint_dir := ''checkpoints/run_1700000000.'',
                              checkpoint_name := ''epoch_n.pt''\<rparr>)
        [((), [''good''], [[]])] fs' 0
        = Inr (final, [AddHparams final, Print final], d) \<and> final ''auroc'' = Some 1) \<and>
   (\<exists>final d.
      inference_main demo_save_args (\<lambda>j. Inr ()) (\<lambda>T s k sp w. Inr ())
        (\<lambda>u::unit. b4_endpoints 2) interpolate_shape cat_shape
        (\<lambda>(rng::nat) m sc x e n s p k.
           if k = JStr ''gaussian'' then Inr ((x, x, [], ()), Suc rng) else Inl ValueError)
        (\<lambda>dm c b. Inr dm) (\<lambda>gts maps. Inr [''auroc'' \<mapsto> real (length gts)])
        demo_inference_args [((), [''good''], [[]])] demo_disk 0
        = Inr (final, [AddHparams final, Print final], d) \<and> final ''auroc'' = Some 1)"
proof (intro conjI)
  note rt = persisted_configuration_roundtrip[OF demo_save_args_writes]
  obtain fs' written where
    t: "train_main demo_save_args (\<lambda>j. Inr ()) (\<lambda>T k. Inr ()) (\<lambda>T s k sp w. Inr ())
        (\<lambda>u::unit. b4_endpoints 2) interpolate_shape cat_shape
        (\<lambda>m f d T k. Inr (1, ())) (\<lambda>m b d T. Inr 1) (\<lambda>n. ''n'')
        (demo_train_args\<lparr>noise_kind := ''simplex''\<rparr>) ''1700000000.'' [((), ())] [((), (), [])]
        (Map.empty, []) = Inr (fs', written)"
    and c: "fst fs' ''checkpoints/run_1700000000./epoch_n.pt'' = Some StateDict"
    using train_main_demo_files by blast
  let ?ia = "demo_inference_args\<lparr>InferenceArgs.checkpoint_dir := ''checkpoints/run_1700000000.'',
                                 checkpoint_name := ''epoch_n.pt''\<rparr>"
  let ?gen = "\<lambda>(rng::nat) (m::unit) (sc::unit) (x::shape) (e::real) (n::int) (s::int) (p::bool) k.
           if k = JStr ''simplex'' then Inr ((x, x, []::image list, ()), Suc rng)
           else Inl ValueError"
  have d: "InferenceArgs.checkpoint_dir ?ia
             = run_directory (demo_train_args\<lparr>noise_kind := ''simplex''\<rparr>) ''1700000000.''"
    by (simp add: run_directory_def demo_train_args_def)
  from rt [THEN conjunct2, THEN conjunct2, THEN conjunct1, rule_format, OF t,
      where save' = demo_save_args and U = "\<lambda>j. Inr ()" and mk = "\<lambda>T s k sp w. Inr ()"
        and ext' = "\<lambda>u::unit. b4_endpoints 2" and interp' = interpolate_shape
        and cat' = cat_shape and gen = ?gen and to_map = "\<lambda>dm c b. Inr dm"
        and score = "\<lambda>gts maps. Inr [''auroc'' \<mapsto> real (length gts)]"
        and loader = "[((), [''good''], [[]])]" and rng = 0]
  obtain margs where
    e: "\<forall>ia. InferenceArgs.checkpoint_dir ia
               = run_directory (demo_train_args\<lparr>noise_kind := ''simplex''\<rparr>) ''1700000000.'' \<longrightarrow>
          inference_main demo_save_args (\<lambda>j. Inr ()) (\<lambda>T s k sp w. Inr ())
            (\<lambda>u::unit. b4_endpoints 2) interpolate_shape cat_shape ?gen
            (\<lambda>dm c b. Inr dm) (\<lambda>gts maps. Inr [''auroc'' \<mapsto> real (length gts)])
            ia [((), [''good''], [[]])] fs' 0 =
          (case demo_save_args (inference_args_json ia) (InferenceArgs.img_dir ia)
                  ''inference_args'' fs' of
             Inl e \<Rightarrow> Inl e
           | Inr fs1 \<Rightarrow>
          (case (Inr ()::error + unit) of
             Inl e \<Rightarrow> Inl e
           | Inr net \<Rightarrow>
          (case torch_load (fst fs1)
                  (InferenceArgs.checkpoint_dir ia @ ''/'' @ checkpoint_name ia) of
             Inl e \<Rightarrow> Inl e
           | Inr _ \<Rightarrow>
          (case (Inr ()::error + unit) of
             Inl e \<Rightarrow> Inl e
           | Inr sched \<Rightarrow>
          (case inference_loop (\<lambda>u::unit. b4_endpoints 2) interpolate_shape cat_shape ?gen
                  (\<lambda>dm c b. Inr dm) (\<lambda>gts maps. Inr [''auroc'' \<mapsto> real (length gts)])
                  net (JStr (noise_kind (demo_train_args\<lparr>noise_kind := ''simplex''\<rparr>))) sched ia
                  (enumerate 0 [((), [''good''], [[]])]) (Map.empty, 0) of
             Inl e \<Rightarrow> Inl e
           | Inr (eval_scores, rng') \<Rightarrow>
          (case average_scores eval_scores
                  (length [((), [''good''], [[]::image])]) of
             Inl e \<Rightarrow> Inl e
           | Inr final \<Rightarrow> Inr (final, [AddHparams final, Print final], fs1)))))))"
    by (elim exE conjE)
  from e[rule_format, OF d] c
  have "\<exists>final d. inference_main demo_save_args (\<lambda>j. Inr ()) (\<lambda>T s k sp w. Inr ())
        (\<lambda>u::unit. b4_endpoints 2) interpolate_shape cat_shape ?gen
        (\<lambda>dm c b. Inr dm) (\<lambda>gts maps. Inr [''auroc'' \<mapsto> real (length gts)])
        ?ia [((), [''good''], [[]])] fs' 0
        = Inr (final, [AddHparams final, Print final], d) \<and> final ''auroc'' = Some 1"
    by (simp add: demo_save_args_def write_file_def torch_load_def demo_inference_args_def
          enumerate_eq_zip prepare_batch_b4 run_inference_step_def
          average_scores_counter_update)
       (simp add: counter_update_def counter_get_def)
  with t show "\<exists>fs' written final d.
      train_main demo_save_args (\<lambda>j. Inr ()) (\<lambda>T k. Inr ()) (\<lambda>T s k sp w. Inr ())
        (\<lambda>u::unit. b4_endpoints 2) interpolate_shape cat_shape
        (\<lambda>m f d T k. Inr (1, ())) (\<lambda>m b d T. Inr 1) (\<lambda>n. ''n'')
        (demo_train_args\<lparr>noise_kind := ''simplex''\<rparr>) ''1700000000.'' [((), ())] [((), (), [])]
        (Map.empty, []) = Inr (fs', written) \<and>
      inference_main demo_save_args (\<lambda>j. Inr ()) (\<lambda>T s k sp w. Inr ())
        (\<lambda>u::unit. b4_endpoints 2) interpolate_shape cat_shape
        (\<lambda>(rng::nat) m sc x e n s p k.
           if k = JStr ''simplex'' then Inr ((x, x, [], ()), Suc rng) else Inl ValueError)
        (\<lambda>dm c b. Inr dm) (\<lambda>gts maps. Inr [''auroc'' \<mapsto> real (length gts)])
        ?ia [((), [''good''], [[]])] fs' 0
        = Inr (final, [AddHparams final, Print final], d) \<and> final ''auroc'' = Some 1"
    by blast
next
  note rt = persisted_configuration_roundtrip[OF demo_save_args_writes]
  let ?gen = "\<lambda>(rng::nat) (m::unit) (sc::unit) (x::shape) (e::real) (n::int) (s::int) (p::bool) k.
           if k = JStr ''gaussian'' then Inr ((x, x, []::image list, ()), Suc rng)
           else Inl ValueError"
  have f: "fst demo_disk (InferenceArgs.checkpoint_dir demo_inference_args @ ''/model_config.json'')
             = Some (JsonFile (JObj [(''sample_size'', JInt 224)])) \<and>
           fst demo_disk (InferenceArgs.checkpoint_dir demo_inference_args
                            @ ''/train_arg_config.json'')
             = Some (JsonFile (JObj []))"
    by (simp add: demo_disk_def demo_inference_args_def)
  from rt [THEN conjunct2, THEN conjunct2, THEN conjunct2, rule_format, OF f,
      where save' = demo_save_args and U = "\<lambda>j. Inr ()" and mk = "\<lambda>T s k sp w. Inr ()"
        and ext' = "\<lambda>u::unit. b4_endpoints 2" and interp' = interpolate_shape
        and cat' = cat_shape and gen = ?gen and to_map = "\<lambda>dm c b. Inr dm"
        and score = "\<lambda>gts maps. Inr [''auroc'' \<mapsto> real (length gts)]"
        and loader = "[((), [''good''], [[]])]" and rng = 0]
  show "\<exists>final d.
      inference_main demo_save_args (\<lambda>j. Inr ()) (\<lambda>T s k sp w. Inr ())
        (\<lambda>u::unit. b4_endpoints 2) interpolate_shape cat_shape
        (\<lambda>(rng::nat) m sc x e n s p k.
           if k = JStr ''gaussian'' then Inr ((x, x, [], ()), Suc rng) else Inl ValueError)
        (\<lambda>dm c b. Inr dm) (\<lambda>gts maps. Inr [''auroc'' \<mapsto> real (length gts)])
        demo_inference_args [((), [''good''], [[]])] demo_disk 0
        = Inr (final, [AddHparams final, Print final], d) \<and> final ''auroc'' = Some 1"
    by (simp add: demo_save_args_def write_file_def torch_load_def demo_inference_args_def
          demo_disk_def dict_index_def enumerate_eq_zip prepare_batch_b4 run_inference_step_def
          average_scores_counter_update)
       (simp add: counter_update_def counter_get_def)
qed

end
